theory Spec2Isabelle
  imports Complex_Main
begin

section \<open>Exceptions\<close>

text \<open>
  The notebooks raise nothing themselves; every exception comes out of a library call
  or out of Python's own division. The constructors name the failures the notebooks can
  meet: a download that fails, a shape that does not fit, memory that runs out, and the
  division by \<open>len(label)\<close> in \<open>evaluate_epoch\<close>.
\<close>

datatype error =
    ZeroDivisionError
  | RuntimeError string
  | URLError string
  | OutOfMemoryError

section \<open>Tensors (tensor.ipynb)\<close>

text \<open>
  The cell under \<open>### Operations\<close>:
  \<^verbatim>\<open>
  a = torch.ones((3, 4))
  b = a.view(4, 3)
  c = b.view(2, 6)
  d = c.flatten()
  \<close>
  Modelled from the spec: a tensor is a multi-dimensional array with a shape, valued by
  its content. The tensor type and its operations are torch's and not in src/, and the
  specification says nothing of \<open>view\<close>; they are modelled as the library has them. A
  tensor is a storage read through sizes and strides: the element at the index
  \<open>(i, j)\<close> of a rank-2 tensor is the storage's element number
  \<open>i * stride 0 + j * stride 1\<close>. The storage is taken from the tensor's first element
  on (its storage offset, which neither \<open>view\<close> nor \<open>.T\<close> changes).
\<close>

record 'a tensor =
  storage :: "'a list"
  sizes :: "nat list"
  strides :: "nat list"

text \<open>The storage offsets of the elements, in row-major order of the indices.\<close>

fun offsets :: "nat list \<Rightarrow> nat list \<Rightarrow> nat list" where
  "offsets (n # ns) (st # sts) =
     concat (map (\<lambda>i. map (\<lambda>k. i * st + k) (offsets ns sts)) [0..<n])"
| "offsets ns sts = [0]"

text \<open>The elements in row-major order of their indices.\<close>

definition elements :: "'a tensor \<Rightarrow> 'a list" where
  "elements t = map (\<lambda>k. storage t ! k) (offsets (sizes t) (strides t))"

definition numel :: "'a tensor \<Rightarrow> nat" where
  "numel t = prod_list (sizes t)"

definition ndim :: "'a tensor \<Rightarrow> nat" where
  "ndim t = length (sizes t)"

text \<open>
  A tensor is contiguous when its strides are those of a row-major layout: each stride is
  the product of the sizes to its right.
\<close>

fun contiguous_strides :: "nat list \<Rightarrow> nat list" where
  "contiguous_strides [] = []"
| "contiguous_strides (n # ns) = prod_list ns # contiguous_strides ns"

definition is_contiguous :: "'a tensor \<Rightarrow> bool" where
  "is_contiguous t \<longleftrightarrow> strides t = contiguous_strides (sizes t)"

text \<open>\<open>torch.ones((r, c))\<close>: a contiguous tensor of ones.\<close>

definition ones :: "nat \<Rightarrow> nat \<Rightarrow> int tensor" where
  "ones r c = \<lparr>storage = replicate (r * c) 1, sizes = [r, c], strides = [c, 1]\<rparr>"

text \<open>
  \<open>t.T\<close>, which the notebook uses in \<open>a @ b.T\<close>: the same storage with sizes and
  strides reversed. The transpose of a contiguous 4x3 tensor is a 3x4 tensor that is not
  contiguous.
\<close>

definition transpose_t :: "'a tensor \<Rightarrow> 'a tensor" where
  "transpose_t t = t\<lparr>sizes := rev (sizes t), strides := rev (strides t)\<rparr>"

text \<open>
  Modelled from the spec: \<open>t.view(shape)\<close> is torch's and not in src/. A view shares the
  storage, so the new shape needs strides that address the same elements in the same
  order; the library computes them as below and raises when there are none. The
  dimensions are walked from the last to the first. The old dimensions are cut into
  chunks, a chunk ending where a dimension's stride is not the stride a contiguous
  layout of the chunk would give it; each chunk must be covered exactly by a run of new
  dimensions, which get strides that are multiples of the chunk's base stride.
  \<open>consume\<close> is the inner loop over the new dimensions (here reversed),
  \<open>chunk_strides\<close> the outer loop over the old dimensions (reversed, each size with its
  stride).
\<close>

fun consume :: "nat \<Rightarrow> nat \<Rightarrow> nat \<Rightarrow> nat list \<Rightarrow> nat list \<Rightarrow> nat \<times> nat list \<times> nat list" where
  "consume tensor_numel base view_numel [] acc = (view_numel, [], acc)"
| "consume tensor_numel base view_numel (d # ds) acc =
     (if view_numel < tensor_numel \<or> d = 1
      then consume tensor_numel base (view_numel * d) ds (view_numel * base # acc)
      else (view_numel, d # ds, acc))"

fun chunk_strides ::
  "(nat \<times> nat) list \<Rightarrow> nat \<Rightarrow> nat \<Rightarrow> nat list \<Rightarrow> nat list \<Rightarrow> nat list option" where
  "chunk_strides [] tensor_numel base newrev acc = (if newrev = [] then Some acc else None)"
| "chunk_strides ((sz, st) # rest) tensor_numel base newrev acc =
     (case rest of
        [] \<Rightarrow>
          (case consume (tensor_numel * sz) base 1 newrev acc of
             (view_numel, newrev', acc') \<Rightarrow>
               if view_numel \<noteq> tensor_numel * sz then None
               else if newrev' = [] then Some acc' else None)
      | (sz_prev, st_prev) # before \<Rightarrow>
          if sz_prev \<noteq> 1 \<and> st_prev \<noteq> tensor_numel * sz * base then
            (case consume (tensor_numel * sz) base 1 newrev acc of
               (view_numel, newrev', acc') \<Rightarrow>
                 if view_numel \<noteq> tensor_numel * sz then None
                 else chunk_strides rest 1 st_prev newrev' acc')
          else chunk_strides rest (tensor_numel * sz) base newrev acc)"

text \<open>The strides the library gives a view of a tensor without elements.\<close>

fun empty_strides :: "nat list \<Rightarrow> nat list" where
  "empty_strides [] = []"
| "empty_strides [n] = [1]"
| "empty_strides (n # m # ms) = (max m 1 * hd (empty_strides (m # ms))) # empty_strides (m # ms)"

definition compute_stride :: "nat list \<Rightarrow> nat list \<Rightarrow> nat list \<Rightarrow> nat list option" where
  "compute_stride oldshape oldstride newshape =
     (if oldshape = [] then Some (replicate (length newshape) 1)
      else if prod_list oldshape = 0 \<and> oldshape = newshape then Some oldstride
      else if prod_list oldshape = 0 then Some (empty_strides newshape)
      else chunk_strides (rev (zip oldshape oldstride)) 1 (last oldstride) (rev newshape) [])"

text \<open>
  \<open>t.view(shape)\<close> raises a RuntimeError when the shape has another number of elements,
  and when no strides fit.
\<close>

definition view :: "'a tensor \<Rightarrow> nat list \<Rightarrow> error + 'a tensor" where
  "view t newshape =
     (if prod_list newshape \<noteq> numel t then Inl (RuntimeError ''shape is invalid for input size'')
      else
        (case compute_stride (sizes t) (strides t) newshape of
           None \<Rightarrow>
             Inl (RuntimeError ''view size is not compatible with input tensor size and stride'')
         | Some newstride \<Rightarrow> Inr (t\<lparr>sizes := newshape, strides := newstride\<rparr>)))"

text \<open>
  Modelled from the spec: \<open>t.flatten()\<close>, torch's and not in src/, is the contiguous
  rank-1 tensor of the elements in row-major order of their indices.
\<close>

definition flatten :: "'a tensor \<Rightarrow> 'a tensor" where
  "flatten t = \<lparr>storage = elements t, sizes = [numel t], strides = [1]\<rparr>"

text \<open>The cell, for any starting tensor \<open>a\<close>: \<open>d\<close> as computed from \<open>a\<close>.\<close>

definition view_flatten_cell :: "'a tensor \<Rightarrow> error + 'a tensor" where
  "view_flatten_cell a =
     (case view a [4, 3] of
        Inl e \<Rightarrow> Inl e
      | Inr b \<Rightarrow>
          (case view b [2, 6] of
             Inl e \<Rightarrow> Inl e
           | Inr c \<Rightarrow> Inr (flatten c)))"

section \<open>The library interface of neuralnet.ipynb\<close>

text \<open>
  Every computation of the notebook is a call into torch or torchvision, which are not
  part of the repository. The library is therefore a parameter of the embedding: a
  record of operations over a state \<open>'s\<close> (the model's parameters and buffers, the
  autograd graph, the optimizer and the scheduler, the generator of random numbers, the
  standard output and the disk). \<open>'i\<close> is the type of images, \<open>'a\<close> the type of
  scores and losses, \<open>'p\<close> the type of a parameter tensor. An operation that can raise
  returns \<open>Inl\<close> of the exception.
\<close>

datatype transform =
    ToTensor
  | Normalize "rat list" "rat list"
  | RandomResizedCrop "nat \<times> nat" bool
  | RandomVerticalFlip
  | RandomHorizontalFlip
  | ColorJitter
  | Compose "transform list"

text \<open>The two models the notebook names: its own class \<open>Net\<close> and \<open>models.resnet18\<close>.\<close>

datatype model_def = Net | ResNet18 bool

text \<open>What the two \<open>print\<close> calls write: \<open>Loss: ...\<close> and \<open>Loss: ..., Accuracy: ...\<close>.\<close>

datatype 'a line = Loss 'a | LossAccuracy 'a real

record ('s, 'i, 'a, 'p) torch =
  CIFAR100 :: "string \<Rightarrow> bool \<Rightarrow> bool \<Rightarrow> 's \<Rightarrow> error + (('i list \<times> nat list) \<times> 's)"
  apply_transform :: "transform \<Rightarrow> 'i \<Rightarrow> 's \<Rightarrow> error + ('i \<times> 's)"
  randperm :: "nat \<Rightarrow> 's \<Rightarrow> error + (nat list \<times> 's)"
  instantiate :: "model_def \<Rightarrow> 's \<Rightarrow> error + 's"
  CrossEntropyLoss :: "'s \<Rightarrow> error + 's"
  SGD :: "rat \<Rightarrow> rat \<Rightarrow> 's \<Rightarrow> error + 's"
  CosineAnnealingLR :: "nat \<Rightarrow> 's \<Rightarrow> error + 's"
  model_call :: "'i list \<Rightarrow> 's \<Rightarrow> error + ('a list list \<times> 's)"
  criterion :: "'a list list \<Rightarrow> nat list \<Rightarrow> 's \<Rightarrow> error + ('a \<times> 's)"
  backward :: "'a \<Rightarrow> 's \<Rightarrow> error + 's"
  optimizer_step :: "'s \<Rightarrow> error + 's"
  optimizer_zero_grad :: "'s \<Rightarrow> error + 's"
  scheduler_step :: "'s \<Rightarrow> error + 's"
  is_grad_enabled :: "'s \<Rightarrow> bool"
  set_grad_enabled :: "bool \<Rightarrow> 's \<Rightarrow> 's"
  print :: "'a line \<Rightarrow> 's \<Rightarrow> error + 's"
  state_dict :: "'s \<Rightarrow> (string \<times> 'p) list"
  save :: "(string \<times> 'p) list \<Rightarrow> string \<Rightarrow> 's \<Rightarrow> error + 's"
  parameters :: "'s \<Rightarrow> 'p list"
  grad :: "'s \<Rightarrow> 'p option list"
  links :: "'s \<Rightarrow> nat"

text \<open>
  The fields, in the notebook's words: \<open>datasets.CIFAR100(dir, train, download)\<close> returns
  the stored images and labels; \<open>apply_transform\<close> applies one transform of
  \<open>torchvision.transforms.v2\<close> other than \<open>Compose\<close>; \<open>randperm\<close> is the random
  order a shuffling loader draws; \<open>instantiate\<close> builds a model; \<open>model_call\<close> is
  \<open>model(input)\<close>, \<open>criterion\<close> is \<open>criterion(output, label)\<close>, \<open>backward\<close> is
  \<open>loss.backward()\<close>; \<open>optimizer_step\<close>, \<open>optimizer_zero_grad\<close> and
  \<open>scheduler_step\<close> are \<open>optimizer.step()\<close>, \<open>optimizer.zero_grad()\<close> and
  \<open>scheduler.step()\<close>; \<open>is_grad_enabled\<close> and \<open>set_grad_enabled\<close> are what
  \<open>torch.no_grad\<close> is made of; \<open>state_dict\<close> is \<open>model.state_dict()\<close> and \<open>save\<close>
  is \<open>torch.save\<close>. The last three fields observe the state: \<open>model.parameters()\<close>,
  the \<open>.grad\<close> buffer of each parameter (\<open>None\<close> when it is empty) and the number of
  backward-computation links (\<open>grad_fn\<close> nodes) the autograd graph holds.
\<close>

section \<open>Datasets and loaders\<close>

text \<open>
  \<^verbatim>\<open>
  transform = v2.Compose([
      v2.ToTensor(),
      v2.Normalize((0.5, 0.5, 0.5), (0.5, 0.5, 0.5)),
      v2.RandomResizedCrop((32, 32), antialias=True),
      v2.RandomVerticalFlip(),
      v2.RandomHorizontalFlip(),
      v2.ColorJitter(),
  ])
  \<close>
\<close>

definition transform :: transform where
  "transform =
     Compose
       [ToTensor,
        Normalize [1 / 2, 1 / 2, 1 / 2] [1 / 2, 1 / 2, 1 / 2],
        RandomResizedCrop (32, 32) True,
        RandomVerticalFlip,
        RandomHorizontalFlip,
        ColorJitter]"

text \<open>
  Modelled from the spec: a chain of transforms. \<open>Compose\<close> is torchvision's and not in
  src/; it applies its transforms in order. Any other transform is a call into the
  library.
\<close>

fun call_transform :: "('s, 'i, 'a, 'p) torch \<Rightarrow> transform \<Rightarrow> 'i \<Rightarrow> 's \<Rightarrow> error + ('i \<times> 's)"
  and call_transforms :: "('s, 'i, 'a, 'p) torch \<Rightarrow> transform list \<Rightarrow> 'i \<Rightarrow> 's \<Rightarrow> error + ('i \<times> 's)"
where
  "call_transform L (Compose ts) img s = call_transforms L ts img s"
| "call_transform L t img s = apply_transform L t img s"
| "call_transforms L [] img s = Inr (img, s)"
| "call_transforms L (t # ts) img s =
     (case call_transform L t img s of
        Inl e \<Rightarrow> Inl e
      | Inr (img', s') \<Rightarrow> call_transforms L ts img' s')"

text \<open>The library transforms a transform applies to an image, in order.\<close>

fun prims :: "transform \<Rightarrow> transform list"
  and prims_list :: "transform list \<Rightarrow> transform list"
where
  "prims (Compose ts) = prims_list ts"
| "prims t = [t]"
| "prims_list [] = []"
| "prims_list (t # ts) = prims t @ prims_list ts"

text \<open>
  The dataset object \<open>datasets.CIFAR100(dir, transform=transform, ...)\<close>: the stored
  images, their labels and the transform it was given.
\<close>

record 'i dataset =
  data :: "'i list"
  targets :: "nat list"
  ds_transform :: transform

definition len_dataset :: "'i dataset \<Rightarrow> nat" where
  "len_dataset ds = length (data ds)"

text \<open>
  Modelled from the spec: a dataset item is an (input, label) pair produced on demand by
  index and derived afresh at each access. \<open>dataset[index]\<close> is torchvision's
  \<open>CIFAR100.__getitem__\<close> and not in src/: it reads the stored image and label, applies
  the transform to the image and returns the pair; it stores nothing.
\<close>

definition getitem ::
  "('s, 'i, 'a, 'p) torch \<Rightarrow> 'i dataset \<Rightarrow> nat \<Rightarrow> 's \<Rightarrow> error + (('i \<times> nat) \<times> 's)" where
  "getitem L ds index s =
     (if index < length (data ds) \<and> index < length (targets ds) then
        (case call_transform L (ds_transform ds) (data ds ! index) s of
           Inl e \<Rightarrow> Inl e
         | Inr (img, s') \<Rightarrow> Inr ((img, targets ds ! index), s'))
      else Inl (RuntimeError ''index out of range''))"

text \<open>\<open>DataLoader(dataset, batch_size=..., shuffle=...)\<close>, with \<open>drop_last\<close> at its default False.\<close>

record 'i data_loader =
  dataset :: "'i dataset"
  batch_size :: nat
  shuffle :: bool

text \<open>
  Modelled from the spec: the batch iterator groups the items into batches of a fixed
  size. The batch sampler is torch's and not in src/: it appends the sampler's indices to
  a batch, yields the batch when it holds \<open>batch_size\<close> indices, and yields what is left
  at the end when that is not empty.
\<close>

fun batch_loop :: "nat \<Rightarrow> nat list \<Rightarrow> nat list \<Rightarrow> nat list list" where
  "batch_loop bsz batch [] = (if length batch > 0 then [batch] else [])"
| "batch_loop bsz batch (idx # rest) =
     (if length (batch @ [idx]) = bsz then (batch @ [idx]) # batch_loop bsz [] rest
      else batch_loop bsz (batch @ [idx]) rest)"

definition batch_sampler :: "nat \<Rightarrow> nat list \<Rightarrow> nat list list" where
  "batch_sampler bsz idxs = batch_loop bsz [] idxs"

text \<open>
  \<open>len(loader)\<close>: the number of batches. The library refuses a batch size of 0 when a
  loader is built; both loaders of the notebook have batch size 8.
\<close>

definition len_loader :: "'i data_loader \<Rightarrow> nat" where
  "len_loader dl = (len_dataset (dataset dl) + batch_size dl - 1) div batch_size dl"

text \<open>
  Modelled from the spec: the batch iterator optionally shuffles the order each pass.
  \<open>iter(loader)\<close> is torch's and not in src/: it fixes the order of the indices, a random
  permutation drawn from the library when the loader shuffles, \<open>0, 1, ...\<close> otherwise.
\<close>

definition iter_loader ::
  "('s, 'i, 'a, 'p) torch \<Rightarrow> 'i data_loader \<Rightarrow> 's \<Rightarrow> error + (nat list list \<times> 's)" where
  "iter_loader L dl s =
     (if shuffle dl then
        (case randperm L (len_dataset (dataset dl)) s of
           Inl e \<Rightarrow> Inl e
         | Inr (order, s') \<Rightarrow> Inr (batch_sampler (batch_size dl) order, s'))
      else Inr (batch_sampler (batch_size dl) [0..<len_dataset (dataset dl)], s))"

text \<open>
  Modelled from the spec: a batch is the items of its indices stacked into one input and
  one label tensor. The fetch is torch's and not in src/: the items are fetched in the
  order of the indices and collated into the list of inputs and the list of labels.
\<close>

fun fetch ::
  "('s, 'i, 'a, 'p) torch \<Rightarrow> 'i dataset \<Rightarrow> nat list \<Rightarrow> 's \<Rightarrow> error + (('i list \<times> nat list) \<times> 's)" where
  "fetch L ds [] s = Inr (([], []), s)"
| "fetch L ds (k # ks) s =
     (case getitem L ds k s of
        Inl e \<Rightarrow> Inl e
      | Inr ((img, lab), s1) \<Rightarrow>
          (case fetch L ds ks s1 of
             Inl e \<Rightarrow> Inl e
           | Inr ((imgs, labs), s2) \<Rightarrow> Inr ((img # imgs, lab # labs), s2)))"

section \<open>The class Net\<close>

text \<open>
  \<^verbatim>\<open>
  self.conv1 = nn.Conv2d(3, 32, 3, 1)
  self.conv2 = nn.Conv2d(32, 64, 3, 1)
  self.dropout1 = nn.Dropout2d(0.25)
  self.dropout2 = nn.Dropout2d(0.5)
  self.fc1 = nn.Linear(12544, 1024)
  self.fc2 = nn.Linear(1024, 100)
  \<close>
  A layer is kept with its arguments: \<open>Conv2d in out kernel stride\<close>, \<open>MaxPool2d kernel\<close>,
  \<open>Dropout2d p\<close>, \<open>Flatten start_dim\<close>, \<open>Linear in out\<close>.
\<close>

datatype layer =
    Conv2d nat nat nat nat
  | ReLU
  | MaxPool2d nat
  | Dropout2d rat
  | Flatten nat
  | Linear nat nat

definition conv1 :: layer where "conv1 = Conv2d 3 32 3 1"
definition conv2 :: layer where "conv2 = Conv2d 32 64 3 1"
definition dropout1 :: layer where "dropout1 = Dropout2d (1 / 4)"
definition dropout2 :: layer where "dropout2 = Dropout2d (1 / 2)"
definition fc1 :: layer where "fc1 = Linear 12544 1024"
definition fc2 :: layer where "fc2 = Linear 1024 100"

text \<open>\<open>Net.forward\<close>: the layers in the order the method applies them to \<open>x\<close>.\<close>

definition Net_forward :: "layer list" where
  "Net_forward =
     [conv1, ReLU, conv2, ReLU, MaxPool2d 2, dropout1, Flatten 1, fc1, ReLU, dropout2, fc2]"

text \<open>
  Modelled from the spec: the model maps a fixed-size image tensor to a fixed number of
  class scores. The layers are torch's and not in src/; this is the shape a layer gives
  to its input's shape, as the library computes it: a
  convolution without padding takes \<open>(N, C, H, W)\<close> to
  \<open>(N, out, (H - k) div stride + 1, (W - k) div stride + 1)\<close>, a pooling of kernel \<open>k\<close>
  divides height and width by \<open>k\<close>, \<open>Flatten 1\<close> multiplies the sizes after the first,
  a linear layer replaces the last size. A shape that does not fit raises.
\<close>

fun layer_shape :: "layer \<Rightarrow> nat list \<Rightarrow> error + nat list" where
  "layer_shape (Conv2d cin cout k st) shp =
     (case shp of
        [n, c, h, w] \<Rightarrow>
          (if c = cin \<and> k \<le> h \<and> k \<le> w \<and> 0 < st
           then Inr [n, cout, (h - k) div st + 1, (w - k) div st + 1]
           else Inl (RuntimeError ''shape mismatch''))
      | _ \<Rightarrow> Inl (RuntimeError ''shape mismatch''))"
| "layer_shape ReLU shp = Inr shp"
| "layer_shape (MaxPool2d k) shp =
     (case shp of
        [n, c, h, w] \<Rightarrow>
          (if 0 < k \<and> k \<le> h \<and> k \<le> w then Inr [n, c, h div k, w div k]
           else Inl (RuntimeError ''shape mismatch''))
      | _ \<Rightarrow> Inl (RuntimeError ''shape mismatch''))"
| "layer_shape (Dropout2d p) shp = Inr shp"
| "layer_shape (Flatten d) shp =
     (if d < length shp then Inr (take d shp @ [prod_list (drop d shp)])
      else Inl (RuntimeError ''shape mismatch''))"
| "layer_shape (Linear fin fout) shp =
     (if shp \<noteq> [] \<and> last shp = fin then Inr (butlast shp @ [fout])
      else Inl (RuntimeError ''shape mismatch''))"

fun forward_shape :: "layer list \<Rightarrow> nat list \<Rightarrow> error + nat list" where
  "forward_shape [] shp = Inr shp"
| "forward_shape (l # ls) shp =
     (case layer_shape l shp of
        Inl e \<Rightarrow> Inl e
      | Inr shp' \<Rightarrow> forward_shape ls shp')"

text \<open>
  \<^verbatim>\<open>
  # model = Net()
  model = models.resnet18(pretrained=False)
  \<close>
\<close>

definition model :: model_def where
  "model = ResNet18 False"

section \<open>Training\<close>

text \<open>
  \<^verbatim>\<open>
  def train_step(input: Tensor, label: Tensor):
      output = model(input)
      loss = criterion(output, label)
      loss.backward()
      optimizer.step()
      optimizer.zero_grad()
      scheduler.step()
      return loss, output
  \<close>
\<close>

definition train_step ::
  "('s, 'i, 'a, 'p) torch \<Rightarrow> 'i list \<Rightarrow> nat list \<Rightarrow> 's \<Rightarrow> error + (('a \<times> 'a list list) \<times> 's)" where
  "train_step L input label s =
     (case model_call L input s of
        Inl e \<Rightarrow> Inl e
      | Inr (output, s1) \<Rightarrow>
     (case criterion L output label s1 of
        Inl e \<Rightarrow> Inl e
      | Inr (loss, s2) \<Rightarrow>
     (case backward L loss s2 of
        Inl e \<Rightarrow> Inl e
      | Inr s3 \<Rightarrow>
     (case optimizer_step L s3 of
        Inl e \<Rightarrow> Inl e
      | Inr s4 \<Rightarrow>
     (case optimizer_zero_grad L s4 of
        Inl e \<Rightarrow> Inl e
      | Inr s5 \<Rightarrow>
     (case scheduler_step L s5 of
        Inl e \<Rightarrow> Inl e
      | Inr s6 \<Rightarrow> Inr ((loss, output), s6)))))))"

text \<open>
  \<^verbatim>\<open>
  def train_epoch(dataloader):
      for i, (input, label) in enumerate(dataloader):
          loss, output = train_step(input, label)
          if i % 100 == 0:
              print(f"Loss: {loss.item()}")
  \<close>
  \<open>train_body\<close> is the body of the loop for the batch of indices \<open>b\<close> and the
  counter \<open>i\<close> of \<open>enumerate\<close>: it fetches the batch, runs the step and prints.
  \<open>train_loop\<close> runs the body over the batches the iteration fixed.
\<close>

definition train_body ::
  "('s, 'i, 'a, 'p) torch \<Rightarrow> 'i dataset \<Rightarrow> nat list \<Rightarrow> nat \<Rightarrow> 's \<Rightarrow> error + 's" where
  "train_body L ds b i s =
     (case fetch L ds b s of
        Inl e \<Rightarrow> Inl e
      | Inr ((input, label), s1) \<Rightarrow>
     (case train_step L input label s1 of
        Inl e \<Rightarrow> Inl e
      | Inr ((loss, output), s2) \<Rightarrow>
          (if i mod 100 = 0 then print L (Loss loss) s2 else Inr s2)))"

fun train_loop ::
  "('s, 'i, 'a, 'p) torch \<Rightarrow> 'i dataset \<Rightarrow> nat list list \<Rightarrow> nat \<Rightarrow> 's \<Rightarrow> error + 's" where
  "train_loop L ds [] i s = Inr s"
| "train_loop L ds (b # bs) i s =
     (case train_body L ds b i s of
        Inl e \<Rightarrow> Inl e
      | Inr s' \<Rightarrow> train_loop L ds bs (i + 1) s')"

definition train_epoch :: "('s, 'i, 'a, 'p) torch \<Rightarrow> 'i data_loader \<Rightarrow> 's \<Rightarrow> error + 's" where
  "train_epoch L dataloader s =
     (case iter_loader L dataloader s of
        Inl e \<Rightarrow> Inl e
      | Inr (batches, s') \<Rightarrow> train_loop L (dataset dataloader) batches 0 s')"

section \<open>Evaluation\<close>

text \<open>
  Modelled from the spec: the evaluation step runs with gradient tracking disabled. The
  decorator \<open>@torch.no_grad()\<close> is torch's and not in src/: the call runs with gradient
  tracking switched off and the mode it found is put back when the call returns.
\<close>

definition no_grad ::
  "('s, 'i, 'a, 'p) torch \<Rightarrow> ('s \<Rightarrow> error + ('r \<times> 's)) \<Rightarrow> 's \<Rightarrow> error + ('r \<times> 's)" where
  "no_grad L f s =
     (let prev = is_grad_enabled L s in
      case f (set_grad_enabled L False s) of
        Inl e \<Rightarrow> Inl e
      | Inr (r, s') \<Rightarrow> Inr (r, set_grad_enabled L prev s'))"

text \<open>
  \<^verbatim>\<open>
  @torch.no_grad()
  def evaluate_step(input, label):
      output = model(input)
      loss = criterion(output, label)
      return loss, output
  \<close>
\<close>

definition evaluate_step ::
  "('s, 'i, 'a, 'p) torch \<Rightarrow> 'i list \<Rightarrow> nat list \<Rightarrow> 's \<Rightarrow> error + (('a \<times> 'a list list) \<times> 's)" where
  "evaluate_step L input label =
     no_grad L (\<lambda>s.
       case model_call L input s of
         Inl e \<Rightarrow> Inl e
       | Inr (output, s1) \<Rightarrow>
      (case criterion L output label s1 of
         Inl e \<Rightarrow> Inl e
       | Inr (loss, s2) \<Rightarrow> Inr ((loss, output), s2)))"

text \<open>
  \<open>output.argmax(dim=1, keepdim=True)\<close>, torch's and not in src/: for each row of
  scores the index of its largest score (the first such index); a row without scores
  raises.
\<close>

fun argmax_row :: "'a::linorder list \<Rightarrow> nat" where
  "argmax_row [] = 0"
| "argmax_row [x] = 0"
| "argmax_row (x # y # ys) =
     (let j = argmax_row (y # ys) in if (y # ys) ! j > x then Suc j else 0)"

definition argmax :: "'a::linorder list list \<Rightarrow> error + nat list" where
  "argmax output =
     (if list_ex (\<lambda>row. row = []) output then Inl (RuntimeError ''cannot reduce an empty dimension'')
      else Inr (map argmax_row output))"

text \<open>
  \<open>pred.eq(label.view_as(pred)).sum().item() / len(label)\<close>: \<open>view_as\<close> raises when
  \<open>label\<close> and \<open>pred\<close> differ in their number of elements; the sum counts the
  predictions that equal their label; Python's division raises on a zero divisor.
\<close>

definition accuracy_of :: "nat list \<Rightarrow> nat list \<Rightarrow> error + real" where
  "accuracy_of pred label =
     (if length label \<noteq> length pred then Inl (RuntimeError ''shape is invalid for input size'')
      else if length label = 0 then Inl ZeroDivisionError
      else Inr (real (length (filter (\<lambda>(p, l). p = l) (zip pred label))) / real (length label)))"

text \<open>
  \<^verbatim>\<open>
  def evaluate_epoch(dataloader):
      for i, (input, label) in enumerate(dataloader):
          loss, output = evaluate_step(input, label)
          pred = output.argmax(dim=1, keepdim=True)
          accuracy = pred.eq(label.view_as(pred)).sum().item() / len(label)
          if i % 100 == 0:
              print(f"Loss: {loss.item()}, Accuracy: {accuracy}")
  \<close>
  \<open>evaluate_body\<close> is the body of the loop, \<open>evaluate_loop\<close> the loop over the
  batches.
\<close>

definition evaluate_body ::
  "('s, 'i, 'a::linorder, 'p) torch \<Rightarrow> 'i dataset \<Rightarrow> nat list \<Rightarrow> nat \<Rightarrow> 's \<Rightarrow> error + 's" where
  "evaluate_body L ds b i s =
     (case fetch L ds b s of
        Inl e \<Rightarrow> Inl e
      | Inr ((input, label), s1) \<Rightarrow>
     (case evaluate_step L input label s1 of
        Inl e \<Rightarrow> Inl e
      | Inr ((loss, output), s2) \<Rightarrow>
     (case argmax output of
        Inl e \<Rightarrow> Inl e
      | Inr pred \<Rightarrow>
     (case accuracy_of pred label of
        Inl e \<Rightarrow> Inl e
      | Inr accuracy \<Rightarrow>
          (if i mod 100 = 0 then print L (LossAccuracy loss accuracy) s2 else Inr s2)))))"

fun evaluate_loop ::
  "('s, 'i, 'a::linorder, 'p) torch \<Rightarrow> 'i dataset \<Rightarrow> nat list list \<Rightarrow> nat \<Rightarrow> 's \<Rightarrow> error + 's" where
  "evaluate_loop L ds [] i s = Inr s"
| "evaluate_loop L ds (b # bs) i s =
     (case evaluate_body L ds b i s of
        Inl e \<Rightarrow> Inl e
      | Inr s' \<Rightarrow> evaluate_loop L ds bs (i + 1) s')"

definition evaluate_epoch ::
  "('s, 'i, 'a::linorder, 'p) torch \<Rightarrow> 'i data_loader \<Rightarrow> 's \<Rightarrow> error + 's" where
  "evaluate_epoch L dataloader s =
     (case iter_loader L dataloader s of
        Inl e \<Rightarrow> Inl e
      | Inr (batches, s') \<Rightarrow> evaluate_loop L (dataset dataloader) batches 0 s')"

section \<open>The notebook from its first cell to its last\<close>

text \<open>
  \<^verbatim>\<open>
  train_data = datasets.CIFAR100("cifar100", transform=transform, download=True)
  val_data = datasets.CIFAR100("cifar100", transform=transform, train=False, download=True)
  train_loader = DataLoader(train_data, batch_size=8, shuffle=True)
  val_loader = DataLoader(val_data, batch_size=8, shuffle=False)
  \<close>
\<close>

definition train_loader :: "'i dataset \<Rightarrow> 'i data_loader" where
  "train_loader train_data = \<lparr>dataset = train_data, batch_size = 8, shuffle = True\<rparr>"

definition val_loader :: "'i dataset \<Rightarrow> 'i data_loader" where
  "val_loader val_data = \<lparr>dataset = val_data, batch_size = 8, shuffle = False\<rparr>"

text \<open>
  \<^verbatim>\<open>
  model = models.resnet18(pretrained=False)
  criterion = nn.CrossEntropyLoss()
  optimizer = optim.SGD(model.parameters(), lr=0.001, momentum=0.9)
  scheduler = optim.lr_scheduler.CosineAnnealingLR(optimizer, T_max=len(train_loader))
  train_epoch(train_loader)
  evaluate_epoch(val_loader)
  torch.save(model.state_dict(), "model.pth")
  \<close>
\<close>

definition workflow :: "('s, 'i, 'a::linorder, 'p) torch \<Rightarrow> 's \<Rightarrow> error + 's" where
  "workflow L s0 =
     (case CIFAR100 L ''cifar100'' True True s0 of
        Inl e \<Rightarrow> Inl e
      | Inr ((train_images, train_labels), s1) \<Rightarrow>
     (case CIFAR100 L ''cifar100'' False True s1 of
        Inl e \<Rightarrow> Inl e
      | Inr ((val_images, val_labels), s2) \<Rightarrow>
     (let train_data = \<lparr>data = train_images, targets = train_labels, ds_transform = transform\<rparr>;
          val_data = \<lparr>data = val_images, targets = val_labels, ds_transform = transform\<rparr>
      in
      case instantiate L model s2 of
        Inl e \<Rightarrow> Inl e
      | Inr s3 \<Rightarrow>
     (case CrossEntropyLoss L s3 of
        Inl e \<Rightarrow> Inl e
      | Inr s4 \<Rightarrow>
     (case SGD L (1 / 1000) (9 / 10) s4 of
        Inl e \<Rightarrow> Inl e
      | Inr s5 \<Rightarrow>
     (case CosineAnnealingLR L (len_loader (train_loader train_data)) s5 of
        Inl e \<Rightarrow> Inl e
      | Inr s6 \<Rightarrow>
     (case train_epoch L (train_loader train_data) s6 of
        Inl e \<Rightarrow> Inl e
      | Inr s7 \<Rightarrow>
     (case evaluate_epoch L (val_loader val_data) s7 of
        Inl e \<Rightarrow> Inl e
      | Inr s8 \<Rightarrow> save L (state_dict L s8) ''model.pth'' s8))))))))"

section \<open>Recording the calls made into the library\<close>

text \<open>
  The order and the number of the library calls a function makes are read off a log: the
  library \<open>traced L\<close> behaves as \<open>L\<close> does on the first component of its state and
  appends to the second the name of each call that returns.
\<close>

datatype 'p call =
    CallCIFAR100 string bool bool
  | CallTransform transform
  | CallRandperm nat
  | CallInstantiate model_def
  | CallCrossEntropyLoss
  | CallSGD rat rat
  | CallCosineAnnealingLR nat
  | CallModel
  | CallCriterion
  | CallBackward
  | CallOptimizerStep
  | CallZeroGrad
  | CallSchedulerStep
  | CallSetGradEnabled bool
  | CallPrint
  | CallSave "(string \<times> 'p) list" string

definition logged ::
  "'c \<Rightarrow> ('s \<Rightarrow> error + ('r \<times> 's)) \<Rightarrow> 's \<times> 'c list \<Rightarrow> error + ('r \<times> 's \<times> 'c list)" where
  "logged c f sl =
     (case f (fst sl) of
        Inl e \<Rightarrow> Inl e
      | Inr (r, s') \<Rightarrow> Inr (r, (s', snd sl @ [c])))"

definition logged0 ::
  "'c \<Rightarrow> ('s \<Rightarrow> error + 's) \<Rightarrow> 's \<times> 'c list \<Rightarrow> error + ('s \<times> 'c list)" where
  "logged0 c f sl =
     (case f (fst sl) of
        Inl e \<Rightarrow> Inl e
      | Inr s' \<Rightarrow> Inr (s', snd sl @ [c]))"

definition traced :: "('s, 'i, 'a, 'p) torch \<Rightarrow> ('s \<times> 'p call list, 'i, 'a, 'p) torch" where
  "traced L =
     \<lparr>CIFAR100 = (\<lambda>dir train download.
        logged (CallCIFAR100 dir train download) (CIFAR100 L dir train download)),
      apply_transform = (\<lambda>t img. logged (CallTransform t) (apply_transform L t img)),
      randperm = (\<lambda>n. logged (CallRandperm n) (randperm L n)),
      instantiate = (\<lambda>m. logged0 (CallInstantiate m) (instantiate L m)),
      CrossEntropyLoss = logged0 CallCrossEntropyLoss (CrossEntropyLoss L),
      SGD = (\<lambda>lr momentum. logged0 (CallSGD lr momentum) (SGD L lr momentum)),
      CosineAnnealingLR = (\<lambda>T_max. logged0 (CallCosineAnnealingLR T_max) (CosineAnnealingLR L T_max)),
      model_call = (\<lambda>input. logged CallModel (model_call L input)),
      criterion = (\<lambda>output label. logged CallCriterion (criterion L output label)),
      backward = (\<lambda>loss. logged0 CallBackward (backward L loss)),
      optimizer_step = logged0 CallOptimizerStep (optimizer_step L),
      optimizer_zero_grad = logged0 CallZeroGrad (optimizer_zero_grad L),
      scheduler_step = logged0 CallSchedulerStep (scheduler_step L),
      is_grad_enabled = (\<lambda>sl. is_grad_enabled L (fst sl)),
      set_grad_enabled = (\<lambda>b sl. (set_grad_enabled L b (fst sl), snd sl @ [CallSetGradEnabled b])),
      print = (\<lambda>l. logged0 CallPrint (print L l)),
      state_dict = (\<lambda>sl. state_dict L (fst sl)),
      save = (\<lambda>obj path. logged0 (CallSave obj path) (save L obj path)),
      parameters = (\<lambda>sl. parameters L (fst sl)),
      grad = (\<lambda>sl. grad L (fst sl)),
      links = (\<lambda>sl. links L (fst sl))\<rparr>"

text \<open>The calls that write a file: a dataset that downloads, and \<open>torch.save\<close>.\<close>

fun writes_file :: "'p call \<Rightarrow> bool" where
  "writes_file (CallCIFAR100 dir train download) = download"
| "writes_file (CallSave obj path) = True"
| "writes_file c = False"

text \<open>The calls that build a model.\<close>

fun instantiates :: "'p call \<Rightarrow> bool" where
  "instantiates (CallInstantiate m) = True"
| "instantiates c = False"

text \<open>
  The calls an epoch can make: those of the data pipeline, of a step, and \<open>print\<close>.
\<close>

fun epoch_call :: "'p call \<Rightarrow> bool" where
  "epoch_call (CallTransform t) = True"
| "epoch_call (CallRandperm n) = True"
| "epoch_call CallModel = True"
| "epoch_call CallCriterion = True"
| "epoch_call CallBackward = True"
| "epoch_call CallOptimizerStep = True"
| "epoch_call CallZeroGrad = True"
| "epoch_call CallSchedulerStep = True"
| "epoch_call (CallSetGradEnabled b) = True"
| "epoch_call CallPrint = True"
| "epoch_call c = False"

section \<open>A small library to run the notebook on\<close>

text \<open>
  An instance of the interface on which the functions above can be evaluated: a model
  of two integer weights, images that are integers, four training and four validation
  images. Its state has the fields the interface observes. A backward pass adds the loss
  to the gradient buffers (or fills an empty one), an optimizer step subtracts the
  buffers from the weights, a vertical flip negates the image when the generator's seed
  is odd and a horizontal flip when it is a multiple of four.
\<close>

record toy =
  weights :: "int list"
  grads :: "int option list"
  n_links :: nat
  enabled :: bool
  last_epoch :: nat
  seed :: nat
  stdout :: "int line list"
  disk :: "(string \<times> (string \<times> int) list) list"

definition toy_init :: toy where
  "toy_init =
     \<lparr>weights = [], grads = [], n_links = 0, enabled = True, last_epoch = 0, seed = 1,
      stdout = [], disk = []\<rparr>"

fun toy_transform :: "transform \<Rightarrow> int \<Rightarrow> toy \<Rightarrow> error + (int \<times> toy)" where
  "toy_transform RandomVerticalFlip img s =
     Inr (if odd (seed s) then - img else img, s\<lparr>seed := seed s + 1\<rparr>)"
| "toy_transform RandomHorizontalFlip img s =
     Inr (if seed s mod 4 = 0 then - img else img, s\<lparr>seed := seed s + 2\<rparr>)"
| "toy_transform t img s = Inr (img, s)"

definition toy_torch :: "(toy, int, int, int) torch" where
  "toy_torch =
     \<lparr>CIFAR100 = (\<lambda>dir train download s.
        Inr ((if train then [1, 2, 3, 4] else [5, 6, 7, 8], [0, 1, 0, 1]),
             s\<lparr>disk := disk s @ [(dir, [])]\<rparr>)),
      apply_transform = toy_transform,
      randperm = (\<lambda>n s. Inr (rev [0..<n], s\<lparr>seed := seed s + 1\<rparr>)),
      instantiate = (\<lambda>m s. Inr (s\<lparr>weights := [1, 2], grads := [None, None]\<rparr>)),
      CrossEntropyLoss = Inr,
      SGD = (\<lambda>lr momentum. Inr),
      CosineAnnealingLR = (\<lambda>T_max. Inr),
      model_call = (\<lambda>input s.
        Inr (map (\<lambda>x. map (\<lambda>wt. wt * x) (weights s)) input,
             s\<lparr>n_links := n_links s + (if enabled s then 1 else 0)\<rparr>)),
      criterion = (\<lambda>output label s.
        Inr (sum_list (map sum_list output) + int (sum_list label),
             s\<lparr>n_links := n_links s + (if enabled s then 1 else 0)\<rparr>)),
      backward = (\<lambda>loss s.
        Inr (s\<lparr>grads := map (\<lambda>b. Some (case b of None \<Rightarrow> loss | Some v \<Rightarrow> v + loss)) (grads s),
               n_links := 0\<rparr>)),
      optimizer_step = (\<lambda>s.
        Inr (s\<lparr>weights :=
               map (\<lambda>(wt, b). case b of None \<Rightarrow> wt | Some v \<Rightarrow> wt - v) (zip (weights s) (grads s))\<rparr>)),
      optimizer_zero_grad = (\<lambda>s. Inr (s\<lparr>grads := map (\<lambda>b. None) (grads s)\<rparr>)),
      scheduler_step = (\<lambda>s. Inr (s\<lparr>last_epoch := last_epoch s + 1\<rparr>)),
      is_grad_enabled = enabled,
      set_grad_enabled = (\<lambda>b s. s\<lparr>enabled := b\<rparr>),
      print = (\<lambda>l s. Inr (s\<lparr>stdout := stdout s @ [l]\<rparr>)),
      state_dict = (\<lambda>s. zip [''fc.weight'', ''fc.bias''] (weights s)),
      save = (\<lambda>obj path s. Inr (s\<lparr>disk := disk s @ [(path, obj)]\<rparr>)),
      parameters = weights,
      grad = grads,
      links = n_links\<rparr>"

text \<open>The same library with a backward pass that runs out of memory.\<close>

definition failing_torch :: "(toy, int, int, int) torch" where
  "failing_torch = toy_torch\<lparr>backward := (\<lambda>loss s. Inl OutOfMemoryError)\<rparr>"

definition toy_ready :: toy where
  "toy_ready = toy_init\<lparr>weights := [1, 2], grads := [None, None]\<rparr>"

text \<open>A state after some training: a gradient buffer is filled and links are recorded.\<close>

definition toy_trained :: toy where
  "toy_trained = toy_ready\<lparr>grads := [Some 3, None], n_links := 2\<rparr>"

definition toy_data8 :: "int dataset" where
  "toy_data8 =
     \<lparr>data = [1, 2, 3, 4, 5, 6, 7, 8], targets = [0, 1, 0, 1, 0, 1, 0, 1],
      ds_transform = transform\<rparr>"

text \<open>The state the small library ends the notebook in.\<close>

definition toy_final :: toy where
  "toy_final =
     \<lparr>weights = [- 13, - 12], grads = [None, None], n_links = 0, enabled = True,
      last_epoch = 1, seed = 26,
      stdout = [Loss 14, LossAccuracy (- 348) (1 / 4)],
      disk = [(''cifar100'', []), (''cifar100'', []),
              (''model.pth'', [(''fc.weight'', - 13), (''fc.bias'', - 12)])]\<rparr>"

definition toy_data :: "int dataset" where
  "toy_data = \<lparr>data = [1, 2, 3, 4], targets = [0, 1, 0, 1], ds_transform = transform\<rparr>"

section \<open>Notions the properties are stated with\<close>

text \<open>The calls a traced run has logged; none when the run raised.\<close>

definition calls_of :: "error + ('r \<times> 's \<times> 'c list) \<Rightarrow> 'c list" where
  "calls_of res = (case res of Inl e \<Rightarrow> [] | Inr (r, s, cs) \<Rightarrow> cs)"

text \<open>The same for a run that returns the state alone.\<close>

definition calls_made :: "error + ('s \<times> 'c list) \<Rightarrow> 'c list" where
  "calls_made res = (case res of Inl e \<Rightarrow> [] | Inr (s, cs) \<Rightarrow> cs)"

text \<open>
  The order of a training step in the words of the specification: forward pass, loss
  computation, gradient computation, parameter update, learning-rate schedule update,
  gradient reset.
\<close>

definition spec_training_step_order :: "'p call list" where
  "spec_training_step_order =
     [CallModel, CallCriterion, CallBackward, CallOptimizerStep, CallSchedulerStep, CallZeroGrad]"

text \<open>Every parameter's gradient buffer is empty.\<close>

definition grads_empty :: "('s, 'i, 'a, 'p) torch \<Rightarrow> 's \<Rightarrow> bool" where
  "grads_empty L s = list_all (\<lambda>b. b = None) (grad L s)"

text \<open>
  What the training loop needs of the library for its gradient buffers:
  \<open>optimizer.zero_grad()\<close> leaves every buffer empty, and the scheduler's step, a
  \<open>print\<close> and a transform of an image leave the buffers as they are.
\<close>

definition zero_grad_contract :: "('s, 'i, 'a, 'p) torch \<Rightarrow> bool" where
  "zero_grad_contract L \<longleftrightarrow>
     (\<forall>s s'. optimizer_zero_grad L s = Inr s' \<longrightarrow> grads_empty L s')
   \<and> (\<forall>s s'. scheduler_step L s = Inr s' \<longrightarrow> grad L s' = grad L s)
   \<and> (\<forall>l s s'. print L l s = Inr s' \<longrightarrow> grad L s' = grad L s)
   \<and> (\<forall>t img s img' s'. apply_transform L t img s = Inr (img', s') \<longrightarrow> grad L s' = grad L s)"

text \<open>
  What the loaders need of the library's random order: it has one index for each item
  (it is a permutation of the indices).
\<close>

definition randperm_length :: "('s, 'i, 'a, 'p) torch \<Rightarrow> bool" where
  "randperm_length L \<longleftrightarrow>
     (\<forall>n s order s'. randperm L n s = Inr (order, s') \<longrightarrow> length order = n)"

text \<open>
  What an evaluation observes of the state: the parameters, their gradient buffers and
  the number of backward-computation links.
\<close>

definition observed :: "('s, 'i, 'a, 'p) torch \<Rightarrow> 's \<Rightarrow> 'p list \<times> 'p option list \<times> nat" where
  "observed L s = (parameters L s, grad L s, links L s)"

text \<open>
  What the evaluation needs of the library: \<open>set_grad_enabled\<close> sets the mode and
  nothing else; a forward pass and a loss computation change neither the parameters, nor
  their gradient buffers, nor the mode, and record no link while the mode is off; a
  \<open>print\<close> and a transform of an image change none of these.
\<close>

definition no_grad_contract :: "('s, 'i, 'a, 'p) torch \<Rightarrow> bool" where
  "no_grad_contract L \<longleftrightarrow>
     (\<forall>b s. is_grad_enabled L (set_grad_enabled L b s) = b
            \<and> observed L (set_grad_enabled L b s) = observed L s)
   \<and> (\<forall>input s output s'. model_call L input s = Inr (output, s') \<longrightarrow>
          parameters L s' = parameters L s \<and> grad L s' = grad L s
        \<and> is_grad_enabled L s' = is_grad_enabled L s
        \<and> (\<not> is_grad_enabled L s \<longrightarrow> links L s' = links L s))
   \<and> (\<forall>output label s loss s'. criterion L output label s = Inr (loss, s') \<longrightarrow>
          parameters L s' = parameters L s \<and> grad L s' = grad L s
        \<and> is_grad_enabled L s' = is_grad_enabled L s
        \<and> (\<not> is_grad_enabled L s \<longrightarrow> links L s' = links L s))
   \<and> (\<forall>l s s'. print L l s = Inr s' \<longrightarrow> observed L s' = observed L s)
   \<and> (\<forall>t img s img' s'. apply_transform L t img s = Inr (img', s') \<longrightarrow>
          observed L s' = observed L s)"

section \<open>The dataset held in the state\<close>

text \<open>
  Modelled from the spec: the lifecycle of a dataset item is read-only. In Python the
  dataset is an object of the program's state, which a transform could write to. To say
  that an access leaves it alone, the state of the library is here a pair of the dataset
  object and the rest: an access reads the dataset out of the state it runs in, and the
  transforms run on the whole state. \<open>getitems_stored\<close> is a sequence of accesses
  (the \<open>__getitems__\<close> of the notebook's \<open>DataSet\<close> skeleton).
\<close>

definition getitem_stored ::
  "('i dataset \<times> 's, 'i, 'a, 'p) torch \<Rightarrow> nat \<Rightarrow> 'i dataset \<times> 's \<Rightarrow>
     error + (('i \<times> nat) \<times> 'i dataset \<times> 's)" where
  "getitem_stored L index st = getitem L (fst st) index st"

fun getitems_stored ::
  "('i dataset \<times> 's, 'i, 'a, 'p) torch \<Rightarrow> nat list \<Rightarrow> 'i dataset \<times> 's \<Rightarrow>
     error + (('i \<times> nat) list \<times> 'i dataset \<times> 's)" where
  "getitems_stored L [] st = Inr ([], st)"
| "getitems_stored L (k # ks) st =
     (case getitem_stored L k st of
        Inl e \<Rightarrow> Inl e
      | Inr (item, st1) \<Rightarrow>
          (case getitems_stored L ks st1 of
             Inl e \<Rightarrow> Inl e
           | Inr (items, st2) \<Rightarrow> Inr (item # items, st2)))"

text \<open>
  What an access needs of the library to be read-only: a transform of an image leaves
  the dataset object as it is.
\<close>

definition transforms_keep_dataset :: "('i dataset \<times> 's, 'i, 'a, 'p) torch \<Rightarrow> bool" where
  "transforms_keep_dataset L \<longleftrightarrow>
     (\<forall>t img st img' st'. apply_transform L t img st = Inr (img', st') \<longrightarrow> fst st' = fst st)"

text \<open>
  A library over a state \<open>'s\<close> as a library over a state that holds an object \<open>'d\<close>
  besides: every operation runs on the second component and leaves the first alone.
\<close>

definition keep_store ::
  "('s \<Rightarrow> error + ('r \<times> 's)) \<Rightarrow> 'd \<times> 's \<Rightarrow> error + ('r \<times> 'd \<times> 's)" where
  "keep_store f st =
     (case f (snd st) of
        Inl e \<Rightarrow> Inl e
      | Inr (r, s') \<Rightarrow> Inr (r, (fst st, s')))"

definition keep_store0 :: "('s \<Rightarrow> error + 's) \<Rightarrow> 'd \<times> 's \<Rightarrow> error + ('d \<times> 's)" where
  "keep_store0 f st =
     (case f (snd st) of
        Inl e \<Rightarrow> Inl e
      | Inr s' \<Rightarrow> Inr (fst st, s'))"

definition with_store :: "('s, 'i, 'a, 'p) torch \<Rightarrow> ('d \<times> 's, 'i, 'a, 'p) torch" where
  "with_store L =
     \<lparr>CIFAR100 = (\<lambda>dir train download. keep_store (CIFAR100 L dir train download)),
      apply_transform = (\<lambda>t img. keep_store (apply_transform L t img)),
      randperm = (\<lambda>n. keep_store (randperm L n)),
      instantiate = (\<lambda>m. keep_store0 (instantiate L m)),
      CrossEntropyLoss = keep_store0 (CrossEntropyLoss L),
      SGD = (\<lambda>lr momentum. keep_store0 (SGD L lr momentum)),
      CosineAnnealingLR = (\<lambda>T_max. keep_store0 (CosineAnnealingLR L T_max)),
      model_call = (\<lambda>input. keep_store (model_call L input)),
      criterion = (\<lambda>output label. keep_store (criterion L output label)),
      backward = (\<lambda>loss. keep_store0 (backward L loss)),
      optimizer_step = keep_store0 (optimizer_step L),
      optimizer_zero_grad = keep_store0 (optimizer_zero_grad L),
      scheduler_step = keep_store0 (scheduler_step L),
      is_grad_enabled = (\<lambda>st. is_grad_enabled L (snd st)),
      set_grad_enabled = (\<lambda>b st. (fst st, set_grad_enabled L b (snd st))),
      print = (\<lambda>l. keep_store0 (print L l)),
      state_dict = (\<lambda>st. state_dict L (snd st)),
      save = (\<lambda>obj path. keep_store0 (save L obj path)),
      parameters = (\<lambda>st. parameters L (snd st)),
      grad = (\<lambda>st. grad L (snd st)),
      links = (\<lambda>st. links L (snd st))\<rparr>"

text \<open>The small library over a state that holds a dataset.\<close>

definition stored_toy :: "(int dataset \<times> toy, int, int, int) torch" where
  "stored_toy = with_store toy_torch"

text \<open>
  A library that is not read-only: its transforms overwrite the stored labels. It shows
  what the hypothesis on the transforms excludes.
\<close>

definition vandal_toy :: "(int dataset \<times> toy, int, int, int) torch" where
  "vandal_toy =
     stored_toy\<lparr>apply_transform := (\<lambda>t img st. Inr (img, (fst st\<lparr>targets := [9, 9, 9, 9]\<rparr>, snd st)))\<rparr>"

section \<open>The batches of a loader\<close>

text \<open>
  The batch sampler yields no empty batch, yields the indices in the order it was given
  them, and yields only full batches when the batch size divides their number.
\<close>

lemma batch_loop_nonempty: "b \<in> set (batch_loop bsz batch idxs) \<Longrightarrow> b \<noteq> []"
  by (induction idxs arbitrary: batch) (auto split: if_splits)

lemma batch_loop_concat: "concat (batch_loop bsz batch idxs) = batch @ idxs"
  by (induction idxs arbitrary: batch) auto

lemma batch_loop_full:
  "length batch < bsz \<Longrightarrow> bsz dvd (length batch + length idxs) \<Longrightarrow>
   b \<in> set (batch_loop bsz batch idxs) \<Longrightarrow> length b = bsz"
proof (induction idxs arbitrary: batch)
  case Nil
  then have "length batch = 0"
    by (auto dest: dvd_imp_le)
  with Nil show ?case by simp
next
  case (Cons idx rest)
  show ?case
  proof (cases "Suc (length batch) = bsz")
    case True
    from True have e: "length batch + length (idx # rest) = bsz + length rest" by simp
    from Cons.prems(2) have "bsz dvd bsz + length rest" unfolding e .
    then have d: "bsz dvd (length ([]::nat list) + length rest)" by simp
    from True have p: "length ([]::nat list) < bsz" by auto
    from Cons.prems(3) True have "b = batch @ [idx] \<or> b \<in> set (batch_loop bsz [] rest)"
      by auto
    then show ?thesis
    proof
      assume "b = batch @ [idx]"
      with True show ?thesis by simp
    next
      assume "b \<in> set (batch_loop bsz [] rest)"
      with Cons.IH [OF p d] show ?thesis .
    qed
  next
    case False
    with Cons.prems(1) have p: "length (batch @ [idx]) < bsz" by simp
    from Cons.prems(2) have d: "bsz dvd (length (batch @ [idx]) + length rest)" by simp
    from Cons.prems(3) False have "b \<in> set (batch_loop bsz (batch @ [idx]) rest)" by simp
    with Cons.IH [OF p d] show ?thesis .
  qed
qed

lemma batch_sampler_full:
  "0 < bsz \<Longrightarrow> bsz dvd length idxs \<Longrightarrow> list_all (\<lambda>b. length b = bsz) (batch_sampler bsz idxs)"
  unfolding batch_sampler_def list_all_iff
  using batch_loop_full [of "[]" bsz idxs] by simp

lemma batch_sampler_nonempty: "b \<in> set (batch_sampler bsz idxs) \<Longrightarrow> b \<noteq> []"
  unfolding batch_sampler_def by (rule batch_loop_nonempty)

lemma batch_sampler_concat: "concat (batch_sampler bsz idxs) = idxs"
  by (simp add: batch_sampler_def batch_loop_concat)

lemma iter_loader_batches:
  "iter_loader L dl s = Inr (batches, s') \<Longrightarrow> \<exists>order. batches = batch_sampler (batch_size dl) order"
  by (auto simp: iter_loader_def split: if_splits sum.splits prod.splits)

lemma fetch_lengths:
  "fetch L ds b s = Inr ((input, label), s') \<Longrightarrow> length input = length b \<and> length label = length b"
  by (induction b arbitrary: s input label) (auto split: sum.splits prod.splits)

section \<open>The accuracy of a batch\<close>

lemma correct_count_le: "length (filter P (zip pred label)) \<le> length label"
proof -
  have "length (filter P (zip pred label)) \<le> length (zip pred label)" by (rule length_filter_le)
  also have "\<dots> \<le> length label" by simp
  finally show ?thesis .
qed

lemma accuracy_of_range:
  assumes "accuracy_of pred label = Inr a"
  shows "0 \<le> a \<and> a \<le> 1"
proof -
  from assms have n: "length label \<noteq> 0"
    and a: "a = real (length (filter (\<lambda>(p, l). p = l) (zip pred label))) / real (length label)"
    by (auto simp: accuracy_of_def split: if_splits)
  have "real (length (filter (\<lambda>(p, l). p = l) (zip pred label))) \<le> real (length label)"
    using correct_count_le [of "\<lambda>(p, l). p = l" pred label] by simp
  with n a show ?thesis by (simp add: divide_le_eq_1)
qed

lemma accuracy_of_no_zero_division: "label \<noteq> [] \<Longrightarrow> accuracy_of pred label \<noteq> Inl ZeroDivisionError"
  by (simp add: accuracy_of_def)

section \<open>Runs that return, taken apart\<close>

lemma train_step_Inr:
  assumes "train_step L input label s = Inr (r, s')"
  obtains out s1 loss s2 s3 s4 s5 where
    "model_call L input s = Inr (out, s1)"
    "criterion L out label s1 = Inr (loss, s2)"
    "backward L loss s2 = Inr s3"
    "optimizer_step L s3 = Inr s4"
    "optimizer_zero_grad L s4 = Inr s5"
    "scheduler_step L s5 = Inr s'"
    "r = (loss, out)"
  using assms unfolding train_step_def
  by (auto split: sum.splits prod.splits)

lemma train_body_Inr:
  assumes "train_body L ds b i s = Inr s3"
  obtains input label s1 loss out s2 where
    "fetch L ds b s = Inr ((input, label), s1)"
    "train_step L input label s1 = Inr ((loss, out), s2)"
    "if i mod 100 = 0 then print L (Loss loss) s2 = Inr s3 else s3 = s2"
  using assms unfolding train_body_def
  by (auto split: sum.splits prod.splits if_splits)

lemma evaluate_step_Inr:
  assumes "evaluate_step L input label s = Inr (r, s')"
  obtains out s1 loss s2 where
    "model_call L input (set_grad_enabled L False s) = Inr (out, s1)"
    "criterion L out label s1 = Inr (loss, s2)"
    "s' = set_grad_enabled L (is_grad_enabled L s) s2"
    "r = (loss, out)"
  using assms unfolding evaluate_step_def no_grad_def
  by (auto simp: Let_def split: sum.splits prod.splits)

lemma evaluate_body_Inr:
  assumes "evaluate_body L ds b i s = Inr s3"
  obtains input label s1 loss out s2 pred accuracy where
    "fetch L ds b s = Inr ((input, label), s1)"
    "evaluate_step L input label s1 = Inr ((loss, out), s2)"
    "argmax out = Inr pred"
    "accuracy_of pred label = Inr accuracy"
    "if i mod 100 = 0 then print L (LossAccuracy loss accuracy) s2 = Inr s3 else s3 = s2"
  using assms unfolding evaluate_body_def
  by (auto split: sum.splits prod.splits if_splits)

lemma workflow_Inr:
  assumes "workflow L s0 = Inr s'"
  obtains train_images train_labels s1 val_images val_labels s2 s3 s4 s5 s6 s7 s8 where
    "CIFAR100 L ''cifar100'' True True s0 = Inr ((train_images, train_labels), s1)"
    "CIFAR100 L ''cifar100'' False True s1 = Inr ((val_images, val_labels), s2)"
    "instantiate L model s2 = Inr s3"
    "CrossEntropyLoss L s3 = Inr s4"
    "SGD L (1 / 1000) (9 / 10) s4 = Inr s5"
    "CosineAnnealingLR L
       (len_loader (train_loader \<lparr>data = train_images, targets = train_labels, ds_transform = transform\<rparr>))
       s5 = Inr s6"
    "train_epoch L
       (train_loader \<lparr>data = train_images, targets = train_labels, ds_transform = transform\<rparr>)
       s6 = Inr s7"
    "evaluate_epoch L
       (val_loader \<lparr>data = val_images, targets = val_labels, ds_transform = transform\<rparr>)
       s7 = Inr s8"
    "save L (state_dict L s8) ''model.pth'' s8 = Inr s'"
  using assms unfolding workflow_def Let_def
  by (auto split: sum.splits prod.splits)

lemma getitem_Inr:
  assumes "getitem L ds index s = Inr ((x, y), s')"
  shows "y = targets ds ! index
       \<and> call_transform L (ds_transform ds) (data ds ! index) s = Inr (x, s')"
  using assms by (auto simp: getitem_def split: if_splits sum.splits prod.splits)

lemma train_loop_append:
  "train_loop L ds (pre @ post) i s =
     (case train_loop L ds pre i s of
        Inl e \<Rightarrow> Inl e
      | Inr s' \<Rightarrow> train_loop L ds post (i + length pre) s')"
  by (induction pre arbitrary: i s) (simp_all split: sum.splits)

lemma evaluate_loop_append:
  "evaluate_loop L ds (pre @ post) i s =
     (case evaluate_loop L ds pre i s of
        Inl e \<Rightarrow> Inl e
      | Inr s' \<Rightarrow> evaluate_loop L ds post (i + length pre) s')"
  by (induction pre arbitrary: i s) (simp_all split: sum.splits)

section \<open>The calls a run makes\<close>

text \<open>
  A run that returns under \<open>L\<close> returns the same under \<open>traced L\<close>, with the calls
  it made appended to the log.
\<close>

lemma traced_fields:
  "CIFAR100 (traced L) dir train download = logged (CallCIFAR100 dir train download) (CIFAR100 L dir train download)"
  "apply_transform (traced L) t img = logged (CallTransform t) (apply_transform L t img)"
  "randperm (traced L) n = logged (CallRandperm n) (randperm L n)"
  "instantiate (traced L) m = logged0 (CallInstantiate m) (instantiate L m)"
  "CrossEntropyLoss (traced L) = logged0 CallCrossEntropyLoss (CrossEntropyLoss L)"
  "SGD (traced L) lr momentum = logged0 (CallSGD lr momentum) (SGD L lr momentum)"
  "CosineAnnealingLR (traced L) T_max = logged0 (CallCosineAnnealingLR T_max) (CosineAnnealingLR L T_max)"
  "model_call (traced L) input = logged CallModel (model_call L input)"
  "criterion (traced L) output label = logged CallCriterion (criterion L output label)"
  "backward (traced L) loss = logged0 CallBackward (backward L loss)"
  "optimizer_step (traced L) = logged0 CallOptimizerStep (optimizer_step L)"
  "optimizer_zero_grad (traced L) = logged0 CallZeroGrad (optimizer_zero_grad L)"
  "scheduler_step (traced L) = logged0 CallSchedulerStep (scheduler_step L)"
  "is_grad_enabled (traced L) sl = is_grad_enabled L (fst sl)"
  "set_grad_enabled (traced L) b sl = (set_grad_enabled L b (fst sl), snd sl @ [CallSetGradEnabled b])"
  "print (traced L) l = logged0 CallPrint (print L l)"
  "state_dict (traced L) sl = state_dict L (fst sl)"
  "save (traced L) obj path = logged0 (CallSave obj path) (save L obj path)"
  "parameters (traced L) sl = parameters L (fst sl)"
  "grad (traced L) sl = grad L (fst sl)"
  "links (traced L) sl = links L (fst sl)"
  by (simp_all add: traced_def)

lemma logged_Inr: "f s = Inr (r, s') \<Longrightarrow> logged c f (s, cs) = Inr (r, (s', cs @ [c]))"
  by (simp add: logged_def)

lemma logged0_Inr: "f s = Inr s' \<Longrightarrow> logged0 c f (s, cs) = Inr (s', cs @ [c])"
  by (simp add: logged0_def)

lemma call_transform_traced:
  "call_transform L t img s = Inr (img', s') \<Longrightarrow>
     call_transform (traced L) t img (s, cs) = Inr (img', (s', cs @ map CallTransform (prims t)))"
  "call_transforms L ts img s = Inr (img', s') \<Longrightarrow>
     call_transforms (traced L) ts img (s, cs) = Inr (img', (s', cs @ map CallTransform (prims_list ts)))"
proof (induction L t img s and L ts img s arbitrary: cs img' s' and cs img' s'
       rule: call_transform_call_transforms.induct)
  case (4 L t ts img s)
  from "4.prems" obtain img1 s1 where
    a: "call_transform L t img s = Inr (img1, s1)" and b: "call_transforms L ts img1 s1 = Inr (img', s')"
    by (auto split: sum.splits prod.splits)
  from "4.IH"(1) [OF a] have "call_transform (traced L) t img (s, cs) = Inr (img1, (s1, cs @ map CallTransform (prims t)))" .
  moreover from "4.IH"(2) [OF a refl b]
  have "call_transforms (traced L) ts img1 (s1, cs @ map CallTransform (prims t)) =
          Inr (img', (s', (cs @ map CallTransform (prims t)) @ map CallTransform (prims_list ts)))" .
  ultimately show ?case by simp
qed (simp_all add: traced_fields logged_Inr)

lemma epoch_call_transforms: "list_all epoch_call (map CallTransform ts)"
  by (induction ts) simp_all

lemma epoch_call_no_write: "list_all epoch_call cs \<Longrightarrow> filter writes_file cs = []"
  by (induction cs) (auto elim: epoch_call.elims)

lemma epoch_call_no_instantiate: "list_all epoch_call cs \<Longrightarrow> filter instantiates cs = []"
  by (induction cs) (auto elim: epoch_call.elims)

lemma getitem_traced:
  assumes "getitem L ds index s = Inr (r, s')"
  shows "getitem (traced L) ds index (s, cs) =
           Inr (r, (s', cs @ map CallTransform (prims (ds_transform ds))))"
proof -
  from assms obtain img where
    i: "index < length (data ds) \<and> index < length (targets ds)"
    and t: "call_transform L (ds_transform ds) (data ds ! index) s = Inr (img, s')"
    and r: "r = (img, targets ds ! index)"
    by (auto simp: getitem_def split: if_splits sum.splits prod.splits)
  from call_transform_traced(1) [OF t] i r show ?thesis
    by (simp add: getitem_def)
qed

lemma fetch_traced:
  "fetch L ds b s = Inr (r, s') \<Longrightarrow>
     \<exists>ext. fetch (traced L) ds b (s, cs) = Inr (r, (s', cs @ ext)) \<and> list_all epoch_call ext"
proof (induction b arbitrary: s cs r)
  case Nil
  then show ?case by auto
next
  case (Cons k ks)
  from Cons.prems obtain img lab s1 imgs labs where
    g: "getitem L ds k s = Inr ((img, lab), s1)"
    and f: "fetch L ds ks s1 = Inr ((imgs, labs), s')"
    and r: "r = (img # imgs, lab # labs)"
    by (auto split: sum.splits prod.splits)
  let ?c1 = "cs @ map CallTransform (prims (ds_transform ds))"
  from Cons.IH [OF f] obtain ext where
    e: "fetch (traced L) ds ks (s1, ?c1) = Inr ((imgs, labs), (s', ?c1 @ ext))"
    and q: "list_all epoch_call ext"
    by blast
  from getitem_traced [OF g] e r
  have "fetch (traced L) ds (k # ks) (s, cs) =
          Inr (r, (s', cs @ (map CallTransform (prims (ds_transform ds)) @ ext)))"
    by simp
  moreover from q have "list_all epoch_call (map CallTransform (prims (ds_transform ds)) @ ext)"
    by (simp add: epoch_call_transforms)
  ultimately show ?case by blast
qed

lemma train_step_traced:
  assumes "train_step L input label s = Inr (r, s')"
  shows "train_step (traced L) input label (s, cs) =
           Inr (r, (s', cs @ [CallModel, CallCriterion, CallBackward,
                               CallOptimizerStep, CallZeroGrad, CallSchedulerStep]))"
proof -
  from assms obtain out s1 loss s2 s3 s4 s5 where
    h: "model_call L input s = Inr (out, s1)"
    "criterion L out label s1 = Inr (loss, s2)"
    "backward L loss s2 = Inr s3"
    "optimizer_step L s3 = Inr s4"
    "optimizer_zero_grad L s4 = Inr s5"
    "scheduler_step L s5 = Inr s'"
    "r = (loss, out)"
    by (rule train_step_Inr)
  then show ?thesis
    by (simp add: train_step_def traced_fields logged_Inr logged0_Inr)
qed

lemma train_body_traced:
  assumes "train_body L ds b i s = Inr s'"
  shows "\<exists>ext. train_body (traced L) ds b i (s, cs) = Inr (s', cs @ ext)
             \<and> list_all epoch_call ext"
proof -
  from assms obtain input label s1 loss out s2 where
    f: "fetch L ds b s = Inr ((input, label), s1)"
    and t: "train_step L input label s1 = Inr ((loss, out), s2)"
    and p: "if i mod 100 = 0 then print L (Loss loss) s2 = Inr s' else s' = s2"
    by (rule train_body_Inr)
  from fetch_traced [OF f] obtain e1 where
    f': "fetch (traced L) ds b (s, cs) = Inr ((input, label), (s1, cs @ e1))"
    and q1: "list_all epoch_call e1"
    by blast
  let ?step = "[CallModel, CallCriterion, CallBackward, CallOptimizerStep, CallZeroGrad, CallSchedulerStep]"
  note t' = train_step_traced [OF t, of "cs @ e1"]
  show ?thesis
  proof (cases "i mod 100 = 0")
    case True
    with p have "print L (Loss loss) s2 = Inr s'" by simp
    then have "print (traced L) (Loss loss) (s2, (cs @ e1) @ ?step) = Inr (s', ((cs @ e1) @ ?step) @ [CallPrint])"
      by (simp add: traced_fields logged0_Inr)
    with True f' t' have "train_body (traced L) ds b i (s, cs) = Inr (s', cs @ (e1 @ ?step @ [CallPrint]))"
      by (simp add: train_body_def)
    moreover from q1 have "list_all epoch_call (e1 @ ?step @ [CallPrint])" by simp
    ultimately show ?thesis by blast
  next
    case False
    with p have "s' = s2" by simp
    with False f' t' have "train_body (traced L) ds b i (s, cs) = Inr (s', cs @ (e1 @ ?step))"
      by (simp add: train_body_def)
    moreover from q1 have "list_all epoch_call (e1 @ ?step)" by simp
    ultimately show ?thesis by blast
  qed
qed

lemma train_loop_traced:
  "train_loop L ds bs i s = Inr s' \<Longrightarrow>
     \<exists>ext. train_loop (traced L) ds bs i (s, cs) = Inr (s', cs @ ext) \<and> list_all epoch_call ext"
proof (induction bs arbitrary: i s cs)
  case Nil
  then show ?case by auto
next
  case (Cons b bs)
  from Cons.prems obtain s1 where
    b: "train_body L ds b i s = Inr s1" and l: "train_loop L ds bs (i + 1) s1 = Inr s'"
    by (auto split: sum.splits)
  from train_body_traced [OF b] obtain e1 where
    b': "train_body (traced L) ds b i (s, cs) = Inr (s1, cs @ e1)"
    and q1: "list_all epoch_call e1"
    by blast
  from Cons.IH [OF l] obtain e2 where
    l': "train_loop (traced L) ds bs (i + 1) (s1, cs @ e1) = Inr (s', (cs @ e1) @ e2)"
    and q2: "list_all epoch_call e2"
    by blast
  from b' l' have "train_loop (traced L) ds (b # bs) i (s, cs) = Inr (s', cs @ (e1 @ e2))"
    by simp
  moreover from q1 q2 have "list_all epoch_call (e1 @ e2)" by simp
  ultimately show ?case by blast
qed

lemma evaluate_step_traced:
  assumes "evaluate_step L input label s = Inr (r, s')"
  shows "evaluate_step (traced L) input label (s, cs) =
           Inr (r, (s', cs @ [CallSetGradEnabled False, CallModel, CallCriterion,
                               CallSetGradEnabled (is_grad_enabled L s)]))"
proof -
  from assms obtain out s1 loss s2 where
    h: "model_call L input (set_grad_enabled L False s) = Inr (out, s1)"
    "criterion L out label s1 = Inr (loss, s2)"
    "s' = set_grad_enabled L (is_grad_enabled L s) s2"
    "r = (loss, out)"
    by (rule evaluate_step_Inr)
  then show ?thesis
    by (simp add: evaluate_step_def no_grad_def Let_def traced_fields logged_Inr)
qed

lemma evaluate_body_traced:
  assumes "evaluate_body L ds b i s = Inr s'"
  shows "\<exists>ext. evaluate_body (traced L) ds b i (s, cs) = Inr (s', cs @ ext)
             \<and> list_all epoch_call ext"
proof -
  from assms obtain input label s1 loss out s2 pred accuracy where
    f: "fetch L ds b s = Inr ((input, label), s1)"
    and t: "evaluate_step L input label s1 = Inr ((loss, out), s2)"
    and a: "argmax out = Inr pred" "accuracy_of pred label = Inr accuracy"
    and p: "if i mod 100 = 0 then print L (LossAccuracy loss accuracy) s2 = Inr s' else s' = s2"
    by (rule evaluate_body_Inr)
  from fetch_traced [OF f] obtain e1 where
    f': "fetch (traced L) ds b (s, cs) = Inr ((input, label), (s1, cs @ e1))"
    and q1: "list_all epoch_call e1"
    by blast
  let ?step = "[CallSetGradEnabled False, CallModel, CallCriterion,
                CallSetGradEnabled (is_grad_enabled L s1)]"
  note t' = evaluate_step_traced [OF t, of "cs @ e1"]
  show ?thesis
  proof (cases "i mod 100 = 0")
    case True
    with p have "print L (LossAccuracy loss accuracy) s2 = Inr s'" by simp
    then have "print (traced L) (LossAccuracy loss accuracy) (s2, (cs @ e1) @ ?step) =
                 Inr (s', ((cs @ e1) @ ?step) @ [CallPrint])"
      by (simp add: traced_fields logged0_Inr)
    with True f' t' a
    have "evaluate_body (traced L) ds b i (s, cs) = Inr (s', cs @ (e1 @ ?step @ [CallPrint]))"
      by (simp add: evaluate_body_def)
    moreover from q1 have "list_all epoch_call (e1 @ ?step @ [CallPrint])" by simp
    ultimately show ?thesis by blast
  next
    case False
    with p have "s' = s2" by simp
    with False f' t' a
    have "evaluate_body (traced L) ds b i (s, cs) = Inr (s', cs @ (e1 @ ?step))"
      by (simp add: evaluate_body_def)
    moreover from q1 have "list_all epoch_call (e1 @ ?step)" by simp
    ultimately show ?thesis by blast
  qed
qed

lemma evaluate_loop_traced:
  "evaluate_loop L ds bs i s = Inr s' \<Longrightarrow>
     \<exists>ext. evaluate_loop (traced L) ds bs i (s, cs) = Inr (s', cs @ ext)
           \<and> list_all epoch_call ext"
proof (induction bs arbitrary: i s cs)
  case Nil
  then show ?case by auto
next
  case (Cons b bs)
  from Cons.prems obtain s1 where
    b: "evaluate_body L ds b i s = Inr s1" and l: "evaluate_loop L ds bs (i + 1) s1 = Inr s'"
    by (auto split: sum.splits)
  from evaluate_body_traced [OF b] obtain e1 where
    b': "evaluate_body (traced L) ds b i (s, cs) = Inr (s1, cs @ e1)"
    and q1: "list_all epoch_call e1"
    by blast
  from Cons.IH [OF l] obtain e2 where
    l': "evaluate_loop (traced L) ds bs (i + 1) (s1, cs @ e1) = Inr (s', (cs @ e1) @ e2)"
    and q2: "list_all epoch_call e2"
    by blast
  from b' l' have "evaluate_loop (traced L) ds (b # bs) i (s, cs) = Inr (s', cs @ (e1 @ e2))"
    by simp
  moreover from q1 q2 have "list_all epoch_call (e1 @ e2)" by simp
  ultimately show ?case by blast
qed

lemma iter_loader_traced:
  assumes "iter_loader L dl s = Inr (batches, s')"
  shows "\<exists>ext. iter_loader (traced L) dl (s, cs) = Inr (batches, (s', cs @ ext))
             \<and> list_all epoch_call ext"
proof (cases "shuffle dl")
  case True
  with assms obtain order' where
    r: "randperm L (len_dataset (dataset dl)) s = Inr (order', s')"
    and b: "batches = batch_sampler (batch_size dl) order'"
    by (auto simp: iter_loader_def split: sum.splits prod.splits)
  from True b r
  have "iter_loader (traced L) dl (s, cs) =
          Inr (batches, (s', cs @ [CallRandperm (len_dataset (dataset dl))]))"
    by (simp add: iter_loader_def traced_fields logged_Inr)
  then show ?thesis by auto
next
  case False
  with assms have "iter_loader (traced L) dl (s, cs) = Inr (batches, (s', cs @ []))"
    by (auto simp: iter_loader_def)
  then show ?thesis by (intro exI [of _ "[]"]) simp
qed

lemma train_epoch_traced:
  assumes "train_epoch L dl s = Inr s'"
  shows "\<exists>ext. train_epoch (traced L) dl (s, cs) = Inr (s', cs @ ext) \<and> list_all epoch_call ext"
proof -
  from assms obtain batches s1 where
    i: "iter_loader L dl s = Inr (batches, s1)"
    and l: "train_loop L (dataset dl) batches 0 s1 = Inr s'"
    by (auto simp: train_epoch_def split: sum.splits prod.splits)
  from iter_loader_traced [OF i] obtain e1 where
    i': "iter_loader (traced L) dl (s, cs) = Inr (batches, (s1, cs @ e1))"
    and q1: "list_all epoch_call e1"
    by blast
  from train_loop_traced [OF l] obtain e2 where
    l': "train_loop (traced L) (dataset dl) batches 0 (s1, cs @ e1) = Inr (s', (cs @ e1) @ e2)"
    and q2: "list_all epoch_call e2"
    by blast
  from i' l' have "train_epoch (traced L) dl (s, cs) = Inr (s', cs @ (e1 @ e2))"
    by (simp add: train_epoch_def)
  moreover from q1 q2 have "list_all epoch_call (e1 @ e2)" by simp
  ultimately show ?thesis by blast
qed

lemma evaluate_epoch_traced:
  assumes "evaluate_epoch L dl s = Inr s'"
  shows "\<exists>ext. evaluate_epoch (traced L) dl (s, cs) = Inr (s', cs @ ext) \<and> list_all epoch_call ext"
proof -
  from assms obtain batches s1 where
    i: "iter_loader L dl s = Inr (batches, s1)"
    and l: "evaluate_loop L (dataset dl) batches 0 s1 = Inr s'"
    by (auto simp: evaluate_epoch_def split: sum.splits prod.splits)
  from iter_loader_traced [OF i] obtain e1 where
    i': "iter_loader (traced L) dl (s, cs) = Inr (batches, (s1, cs @ e1))"
    and q1: "list_all epoch_call e1"
    by blast
  from evaluate_loop_traced [OF l] obtain e2 where
    l': "evaluate_loop (traced L) (dataset dl) batches 0 (s1, cs @ e1) = Inr (s', (cs @ e1) @ e2)"
    and q2: "list_all epoch_call e2"
    by blast
  from i' l' have "evaluate_epoch (traced L) dl (s, cs) = Inr (s', cs @ (e1 @ e2))"
    by (simp add: evaluate_epoch_def)
  moreover from q1 q2 have "list_all epoch_call (e1 @ e2)" by simp
  ultimately show ?thesis by blast
qed

lemma workflow_traced:
  assumes "workflow L s0 = Inr s'"
  shows "\<exists>T_max val_data ext s7 s8.
           workflow (traced L) (s0, cs) =
             Inr (s', cs @ [CallCIFAR100 ''cifar100'' True True, CallCIFAR100 ''cifar100'' False True,
                            CallInstantiate model, CallCrossEntropyLoss, CallSGD (1 / 1000) (9 / 10),
                            CallCosineAnnealingLR T_max]
                         @ ext @ [CallSave (state_dict L s8) ''model.pth''])
         \<and> list_all epoch_call ext
         \<and> evaluate_epoch L (val_loader val_data) s7 = Inr s8
         \<and> save L (state_dict L s8) ''model.pth'' s8 = Inr s'"
proof -
  from assms obtain train_images train_labels s1 val_images val_labels s2 s3 s4 s5 s6 s7 s8 where
    h: "CIFAR100 L ''cifar100'' True True s0 = Inr ((train_images, train_labels), s1)"
    "CIFAR100 L ''cifar100'' False True s1 = Inr ((val_images, val_labels), s2)"
    "instantiate L model s2 = Inr s3"
    "CrossEntropyLoss L s3 = Inr s4"
    "SGD L (1 / 1000) (9 / 10) s4 = Inr s5"
    "CosineAnnealingLR L
       (len_loader (train_loader \<lparr>data = train_images, targets = train_labels, ds_transform = transform\<rparr>))
       s5 = Inr s6"
    and t: "train_epoch L
       (train_loader \<lparr>data = train_images, targets = train_labels, ds_transform = transform\<rparr>)
       s6 = Inr s7"
    and e: "evaluate_epoch L
       (val_loader \<lparr>data = val_images, targets = val_labels, ds_transform = transform\<rparr>)
       s7 = Inr s8"
    and sv: "save L (state_dict L s8) ''model.pth'' s8 = Inr s'"
    by (rule workflow_Inr)
  let ?train = "\<lparr>data = train_images, targets = train_labels, ds_transform = transform\<rparr>"
  let ?val = "\<lparr>data = val_images, targets = val_labels, ds_transform = transform\<rparr>"
  let ?c6 = "cs @ [CallCIFAR100 ''cifar100'' True True, CallCIFAR100 ''cifar100'' False True,
              CallInstantiate model, CallCrossEntropyLoss, CallSGD (1 / 1000) (9 / 10),
              CallCosineAnnealingLR (len_loader (train_loader ?train))]"
  from train_epoch_traced [OF t, of ?c6] obtain e1 where
    t': "train_epoch (traced L) (train_loader ?train) (s6, ?c6) = Inr (s7, ?c6 @ e1)"
    and q1: "list_all epoch_call e1"
    by blast
  from evaluate_epoch_traced [OF e, of "?c6 @ e1"] obtain e2 where
    e': "evaluate_epoch (traced L) (val_loader ?val) (s7, ?c6 @ e1) = Inr (s8, (?c6 @ e1) @ e2)"
    and q2: "list_all epoch_call e2"
    by blast
  from h t' e' sv have "workflow (traced L) (s0, cs) =
      Inr (s', cs @ [CallCIFAR100 ''cifar100'' True True, CallCIFAR100 ''cifar100'' False True,
                     CallInstantiate model, CallCrossEntropyLoss, CallSGD (1 / 1000) (9 / 10),
                     CallCosineAnnealingLR (len_loader (train_loader ?train))]
                  @ (e1 @ e2) @ [CallSave (state_dict L s8) ''model.pth''])"
    by (simp add: workflow_def traced_fields logged_Inr logged0_Inr)
  moreover from q1 q2 have "list_all epoch_call (e1 @ e2)" by simp
  ultimately show ?thesis using e sv by blast
qed

lemma workflow_instantiates:
  assumes "workflow L s0 = Inr s'"
  shows "filter instantiates (calls_made (workflow (traced L) (s0, []))) = [CallInstantiate model]"
proof -
  from workflow_traced [OF assms, of "[]"] obtain T_max ext s8 where
    w: "workflow (traced L) (s0, []) =
             Inr (s', [] @ [CallCIFAR100 ''cifar100'' True True, CallCIFAR100 ''cifar100'' False True,
                            CallInstantiate model, CallCrossEntropyLoss, CallSGD (1 / 1000) (9 / 10),
                            CallCosineAnnealingLR T_max]
                         @ ext @ [CallSave (state_dict L s8) ''model.pth''])"
    and q: "list_all epoch_call ext"
    by blast
  from q have "filter instantiates ext = []" by (rule epoch_call_no_instantiate)
  with w show ?thesis by (simp add: calls_made_def)
qed

section \<open>What the data pipeline leaves alone\<close>

text \<open>
  Any function \<open>obs\<close> of the state that every library transform leaves alone is left
  alone by a composed transform, by an item access and by the fetch of a batch.
\<close>

lemma call_transform_keeps:
  "(\<forall>t img s img' s'. apply_transform L t img s = Inr (img', s') \<longrightarrow> obs s' = obs s) \<Longrightarrow>
     call_transform L t img s = Inr (img', s') \<Longrightarrow> obs s' = obs s"
  "(\<forall>t img s img' s'. apply_transform L t img s = Inr (img', s') \<longrightarrow> obs s' = obs s) \<Longrightarrow>
     call_transforms L ts img s = Inr (img', s') \<Longrightarrow> obs s' = obs s"
proof (induction L t img s and L ts img s arbitrary: img' s' and img' s'
       rule: call_transform_call_transforms.induct)
  case (4 L t ts img s)
  from "4.prems"(2) obtain img1 s1 where
    a: "call_transform L t img s = Inr (img1, s1)" and b: "call_transforms L ts img1 s1 = Inr (img', s')"
    by (auto split: sum.splits prod.splits)
  from "4.IH"(1) [OF "4.prems"(1) a] have "obs s1 = obs s" .
  moreover from "4.IH"(2) [OF a refl "4.prems"(1) b] have "obs s' = obs s1" .
  ultimately show ?case by simp
qed auto

lemma getitem_keeps:
  assumes "\<forall>t img s img' s'. apply_transform L t img s = Inr (img', s') \<longrightarrow> obs s' = obs s"
      and "getitem L ds index s = Inr (r, s')"
  shows "obs s' = obs s"
proof -
  from assms(2) obtain img where
    "call_transform L (ds_transform ds) (data ds ! index) s = Inr (img, s')"
    by (auto simp: getitem_def split: if_splits sum.splits prod.splits)
  with assms(1) show ?thesis by (rule call_transform_keeps(1))
qed

lemma fetch_keeps:
  assumes "\<forall>t img s img' s'. apply_transform L t img s = Inr (img', s') \<longrightarrow> obs s' = obs s"
  shows "fetch L ds b s = Inr (r, s') \<Longrightarrow> obs s' = obs s"
proof (induction b arbitrary: s r)
  case Nil
  then show ?case by simp
next
  case (Cons k ks)
  from Cons.prems obtain x s1 y where
    g: "getitem L ds k s = Inr (x, s1)" and f: "fetch L ds ks s1 = Inr (y, s')"
    by (auto split: sum.splits prod.splits)
  from getitem_keeps [OF assms g] have "obs s1 = obs s" .
  moreover from Cons.IH [OF f] have "obs s' = obs s1" .
  ultimately show ?case by simp
qed

section \<open>Gradient buffers in the training loop\<close>

lemma train_step_resets:
  assumes c: "zero_grad_contract L" and t: "train_step L input label s = Inr (r, s')"
  shows "grads_empty L s'"
proof -
  from t obtain s4 s5 where
    z: "optimizer_zero_grad L s4 = Inr s5" and sch: "scheduler_step L s5 = Inr s'"
    by (rule train_step_Inr)
  from c z have "grads_empty L s5" by (auto simp: zero_grad_contract_def)
  moreover from c sch have "grad L s' = grad L s5" by (auto simp: zero_grad_contract_def)
  ultimately show ?thesis by (simp add: grads_empty_def)
qed

lemma train_body_resets:
  assumes c: "zero_grad_contract L" and b: "train_body L ds b i s = Inr s'"
  shows "grads_empty L s'"
proof -
  from b obtain input label s1 loss out s2 where
    t: "train_step L input label s1 = Inr ((loss, out), s2)"
    and p: "if i mod 100 = 0 then print L (Loss loss) s2 = Inr s' else s' = s2"
    by (rule train_body_Inr)
  from train_step_resets [OF c t] have e: "grads_empty L s2" .
  show ?thesis
  proof (cases "i mod 100 = 0")
    case True
    with p have "print L (Loss loss) s2 = Inr s'" by simp
    with c have "grad L s' = grad L s2" by (auto simp: zero_grad_contract_def)
    with e show ?thesis by (simp add: grads_empty_def)
  next
    case False
    with p e show ?thesis by simp
  qed
qed

lemma train_loop_resets:
  assumes c: "zero_grad_contract L"
  shows "train_loop L ds bs i s = Inr s' \<Longrightarrow> bs = [] \<longrightarrow> grads_empty L s \<Longrightarrow> grads_empty L s'"
proof (induction bs arbitrary: i s)
  case Nil
  then show ?case by simp
next
  case (Cons b bs)
  from Cons.prems(1) obtain s1 where
    b: "train_body L ds b i s = Inr s1" and l: "train_loop L ds bs (i + 1) s1 = Inr s'"
    by (auto split: sum.splits)
  from train_body_resets [OF c b] have "grads_empty L s1" .
  with Cons.IH [OF l] show ?case by simp
qed

section \<open>The state across an evaluation\<close>

lemma evaluate_step_keeps:
  assumes c: "no_grad_contract L" and t: "evaluate_step L input label s = Inr (r, s')"
  shows "observed L s' = observed L s \<and> is_grad_enabled L s' = is_grad_enabled L s"
proof -
  from t obtain out s1 loss s2 where
    m: "model_call L input (set_grad_enabled L False s) = Inr (out, s1)"
    and cr: "criterion L out label s1 = Inr (loss, s2)"
    and s': "s' = set_grad_enabled L (is_grad_enabled L s) s2"
    by (rule evaluate_step_Inr)
  let ?s0 = "set_grad_enabled L False s"
  from c have g0: "\<not> is_grad_enabled L ?s0" and o0: "observed L ?s0 = observed L s"
    by (auto simp: no_grad_contract_def)
  from c m g0 have o1: "observed L s1 = observed L ?s0" and g1: "\<not> is_grad_enabled L s1"
    unfolding no_grad_contract_def observed_def by (metis)+
  from c cr g1 have o2: "observed L s2 = observed L s1"
    unfolding no_grad_contract_def observed_def by metis
  from c s' have "observed L s' = observed L s2" and "is_grad_enabled L s' = is_grad_enabled L s"
    by (auto simp: no_grad_contract_def)
  with o0 o1 o2 show ?thesis by simp
qed

lemma evaluate_body_keeps:
  assumes c: "no_grad_contract L" and b: "evaluate_body L ds b i s = Inr s'"
  shows "observed L s' = observed L s"
proof -
  from b obtain input label s1 loss out s2 pred accuracy where
    f: "fetch L ds b s = Inr ((input, label), s1)"
    and t: "evaluate_step L input label s1 = Inr ((loss, out), s2)"
    and p: "if i mod 100 = 0 then print L (LossAccuracy loss accuracy) s2 = Inr s' else s' = s2"
    by (rule evaluate_body_Inr)
  from c have k: "\<forall>t img s img' s'. apply_transform L t img s = Inr (img', s') \<longrightarrow>
      observed L s' = observed L s"
    unfolding no_grad_contract_def by blast
  from fetch_keeps [OF k f] have o1: "observed L s1 = observed L s" .
  from evaluate_step_keeps [OF c t] have o2: "observed L s2 = observed L s1" by simp
  have "observed L s' = observed L s2"
  proof (cases "i mod 100 = 0")
    case True
    with p have "print L (LossAccuracy loss accuracy) s2 = Inr s'" by simp
    with c show ?thesis unfolding no_grad_contract_def by blast
  next
    case False
    with p show ?thesis by simp
  qed
  with o1 o2 show ?thesis by simp
qed

lemma evaluate_loop_keeps:
  assumes c: "no_grad_contract L"
  shows "evaluate_loop L ds bs i s = Inr s' \<Longrightarrow> observed L s' = observed L s"
proof (induction bs arbitrary: i s)
  case Nil
  then show ?case by simp
next
  case (Cons b bs)
  from Cons.prems obtain s1 where
    b: "evaluate_body L ds b i s = Inr s1" and l: "evaluate_loop L ds bs (i + 1) s1 = Inr s'"
    by (auto split: sum.splits)
  from evaluate_body_keeps [OF c b] Cons.IH [OF l] show ?case by simp
qed

lemma evaluate_epoch_val_keeps:
  assumes c: "no_grad_contract L" and e: "evaluate_epoch L (val_loader val_data) s = Inr s'"
  shows "observed L s' = observed L s"
proof -
  from e obtain batches where
    "evaluate_loop L (dataset (val_loader val_data)) batches 0 s = Inr s'"
    by (auto simp: evaluate_epoch_def iter_loader_def val_loader_def split: sum.splits)
  with c show ?thesis by (rule evaluate_loop_keeps)
qed

section \<open>Runs that raise\<close>

text \<open>
  Each function raises \<open>e\<close> exactly when the first call in it that raises, raises
  \<open>e\<close>.
\<close>

lemma train_step_Inl:
  "train_step L input label s = Inl e \<longleftrightarrow>
     model_call L input s = Inl e
   \<or> (\<exists>out s1. model_call L input s = Inr (out, s1) \<and>
        (criterion L out label s1 = Inl e
       \<or> (\<exists>loss s2. criterion L out label s1 = Inr (loss, s2) \<and>
            (backward L loss s2 = Inl e
           \<or> (\<exists>s3. backward L loss s2 = Inr s3 \<and>
                (optimizer_step L s3 = Inl e
               \<or> (\<exists>s4. optimizer_step L s3 = Inr s4 \<and>
                    (optimizer_zero_grad L s4 = Inl e
                   \<or> (\<exists>s5. optimizer_zero_grad L s4 = Inr s5 \<and>
                        scheduler_step L s5 = Inl e)))))))))"
  unfolding train_step_def
  by (auto split: sum.splits prod.splits)

lemma evaluate_step_Inl:
  "evaluate_step L input label s = Inl e \<longleftrightarrow>
     model_call L input (set_grad_enabled L False s) = Inl e
   \<or> (\<exists>out s1. model_call L input (set_grad_enabled L False s) = Inr (out, s1) \<and>
        criterion L out label s1 = Inl e)"
  unfolding evaluate_step_def no_grad_def Let_def
  by (auto split: sum.splits prod.splits)

lemma train_body_Inl:
  "train_body L ds b i s = Inl e \<longleftrightarrow>
     fetch L ds b s = Inl e
   \<or> (\<exists>input label s1. fetch L ds b s = Inr ((input, label), s1) \<and>
        (train_step L input label s1 = Inl e
       \<or> (\<exists>loss out s2. train_step L input label s1 = Inr ((loss, out), s2) \<and>
            i mod 100 = 0 \<and> print L (Loss loss) s2 = Inl e)))"
  unfolding train_body_def
  by (auto split: sum.splits prod.splits)

lemma evaluate_body_Inl:
  "evaluate_body L ds b i s = Inl e \<longleftrightarrow>
     fetch L ds b s = Inl e
   \<or> (\<exists>input label s1. fetch L ds b s = Inr ((input, label), s1) \<and>
        (evaluate_step L input label s1 = Inl e
       \<or> (\<exists>loss out s2. evaluate_step L input label s1 = Inr ((loss, out), s2) \<and>
            (argmax out = Inl e
           \<or> (\<exists>pred. argmax out = Inr pred \<and>
                (accuracy_of pred label = Inl e
               \<or> (\<exists>accuracy. accuracy_of pred label = Inr accuracy \<and>
                    i mod 100 = 0 \<and> print L (LossAccuracy loss accuracy) s2 = Inl e)))))))"
  unfolding evaluate_body_def
  by (auto split: sum.splits prod.splits)

lemma train_loop_Inl:
  "train_loop L ds bs i s = Inl e \<longleftrightarrow>
     (\<exists>pre b post s'. bs = pre @ b # post \<and> train_loop L ds pre i s = Inr s'
        \<and> train_body L ds b (i + length pre) s' = Inl e)"
proof
  assume "train_loop L ds bs i s = Inl e"
  then show "\<exists>pre b post s'. bs = pre @ b # post \<and> train_loop L ds pre i s = Inr s'
        \<and> train_body L ds b (i + length pre) s' = Inl e"
  proof (induction bs arbitrary: i s)
    case Nil
    then show ?case by simp
  next
    case (Cons b bs)
    show ?case
    proof (cases "train_body L ds b i s")
      case (Inl e')
      with Cons.prems have "e' = e" by simp
      with Inl have "b # bs = [] @ b # bs \<and> train_loop L ds [] i s = Inr s
          \<and> train_body L ds b (i + length ([]::nat list list)) s = Inl e"
        by simp
      then show ?thesis by blast
    next
      case (Inr s1)
      with Cons.prems have "train_loop L ds bs (i + 1) s1 = Inl e" by simp
      from Cons.IH [OF this] obtain pre c post s' where
        h: "bs = pre @ c # post" "train_loop L ds pre (i + 1) s1 = Inr s'"
           "train_body L ds c (i + 1 + length pre) s' = Inl e"
        by blast
      with Inr have "b # bs = (b # pre) @ c # post \<and> train_loop L ds (b # pre) i s = Inr s'
          \<and> train_body L ds c (i + length (b # pre)) s' = Inl e"
        by (simp add: add.commute add.left_commute)
      then show ?thesis by blast
    qed
  qed
next
  assume "\<exists>pre b post s'. bs = pre @ b # post \<and> train_loop L ds pre i s = Inr s'
        \<and> train_body L ds b (i + length pre) s' = Inl e"
  then show "train_loop L ds bs i s = Inl e"
    by (auto simp: train_loop_append)
qed

lemma evaluate_loop_Inl:
  "evaluate_loop L ds bs i s = Inl e \<longleftrightarrow>
     (\<exists>pre b post s'. bs = pre @ b # post \<and> evaluate_loop L ds pre i s = Inr s'
        \<and> evaluate_body L ds b (i + length pre) s' = Inl e)"
proof
  assume "evaluate_loop L ds bs i s = Inl e"
  then show "\<exists>pre b post s'. bs = pre @ b # post \<and> evaluate_loop L ds pre i s = Inr s'
        \<and> evaluate_body L ds b (i + length pre) s' = Inl e"
  proof (induction bs arbitrary: i s)
    case Nil
    then show ?case by simp
  next
    case (Cons b bs)
    show ?case
    proof (cases "evaluate_body L ds b i s")
      case (Inl e')
      with Cons.prems have "e' = e" by simp
      with Inl have "b # bs = [] @ b # bs \<and> evaluate_loop L ds [] i s = Inr s
          \<and> evaluate_body L ds b (i + length ([]::nat list list)) s = Inl e"
        by simp
      then show ?thesis by blast
    next
      case (Inr s1)
      with Cons.prems have "evaluate_loop L ds bs (i + 1) s1 = Inl e" by simp
      from Cons.IH [OF this] obtain pre c post s' where
        h: "bs = pre @ c # post" "evaluate_loop L ds pre (i + 1) s1 = Inr s'"
           "evaluate_body L ds c (i + 1 + length pre) s' = Inl e"
        by blast
      with Inr have "b # bs = (b # pre) @ c # post \<and> evaluate_loop L ds (b # pre) i s = Inr s'
          \<and> evaluate_body L ds c (i + length (b # pre)) s' = Inl e"
        by (simp add: add.commute add.left_commute)
      then show ?thesis by blast
    qed
  qed
next
  assume "\<exists>pre b post s'. bs = pre @ b # post \<and> evaluate_loop L ds pre i s = Inr s'
        \<and> evaluate_body L ds b (i + length pre) s' = Inl e"
  then show "evaluate_loop L ds bs i s = Inl e"
    by (auto simp: evaluate_loop_append)
qed

lemma train_epoch_Inl:
  "train_epoch L dl s = Inl e \<longleftrightarrow>
     iter_loader L dl s = Inl e
   \<or> (\<exists>batches s1. iter_loader L dl s = Inr (batches, s1) \<and>
        train_loop L (dataset dl) batches 0 s1 = Inl e)"
  unfolding train_epoch_def
  by (auto split: sum.splits prod.splits)

lemma evaluate_epoch_Inl:
  "evaluate_epoch L dl s = Inl e \<longleftrightarrow>
     iter_loader L dl s = Inl e
   \<or> (\<exists>batches s1. iter_loader L dl s = Inr (batches, s1) \<and>
        evaluate_loop L (dataset dl) batches 0 s1 = Inl e)"
  unfolding evaluate_epoch_def
  by (auto split: sum.splits prod.splits)

lemma train_epoch_Inl_body:
  "train_epoch L dl s = Inl e \<longleftrightarrow>
     iter_loader L dl s = Inl e
   \<or> (\<exists>pre b post s1 s2. iter_loader L dl s = Inr (pre @ b # post, s1) \<and>
        train_loop L (dataset dl) pre 0 s1 = Inr s2 \<and>
        train_body L (dataset dl) b (length pre) s2 = Inl e)"
  unfolding train_epoch_Inl train_loop_Inl add_0 by blast

lemma evaluate_epoch_Inl_body:
  "evaluate_epoch L dl s = Inl e \<longleftrightarrow>
     iter_loader L dl s = Inl e
   \<or> (\<exists>pre b post s1 s2. iter_loader L dl s = Inr (pre @ b # post, s1) \<and>
        evaluate_loop L (dataset dl) pre 0 s1 = Inr s2 \<and>
        evaluate_body L (dataset dl) b (length pre) s2 = Inl e)"
  unfolding evaluate_epoch_Inl evaluate_loop_Inl add_0 by blast

lemma workflow_Inl:
  "workflow L s0 = Inl e \<longleftrightarrow>
     CIFAR100 L ''cifar100'' True True s0 = Inl e
   \<or> (\<exists>train_images train_labels s1.
        CIFAR100 L ''cifar100'' True True s0 = Inr ((train_images, train_labels), s1) \<and>
        (CIFAR100 L ''cifar100'' False True s1 = Inl e
       \<or> (\<exists>val_images val_labels s2.
            CIFAR100 L ''cifar100'' False True s1 = Inr ((val_images, val_labels), s2) \<and>
            (instantiate L model s2 = Inl e
           \<or> (\<exists>s3. instantiate L model s2 = Inr s3 \<and>
                (CrossEntropyLoss L s3 = Inl e
               \<or> (\<exists>s4. CrossEntropyLoss L s3 = Inr s4 \<and>
                    (SGD L (1 / 1000) (9 / 10) s4 = Inl e
                   \<or> (\<exists>s5. SGD L (1 / 1000) (9 / 10) s4 = Inr s5 \<and>
                        (CosineAnnealingLR L
                           (len_loader (train_loader
                              \<lparr>data = train_images, targets = train_labels, ds_transform = transform\<rparr>))
                           s5 = Inl e
                       \<or> (\<exists>s6. CosineAnnealingLR L
                             (len_loader (train_loader
                                \<lparr>data = train_images, targets = train_labels, ds_transform = transform\<rparr>))
                             s5 = Inr s6 \<and>
                            (train_epoch L
                               (train_loader
                                  \<lparr>data = train_images, targets = train_labels, ds_transform = transform\<rparr>)
                               s6 = Inl e
                           \<or> (\<exists>s7. train_epoch L
                                 (train_loader
                                    \<lparr>data = train_images, targets = train_labels, ds_transform = transform\<rparr>)
                                 s6 = Inr s7 \<and>
                                (evaluate_epoch L
                                   (val_loader
                                      \<lparr>data = val_images, targets = val_labels, ds_transform = transform\<rparr>)
                                   s7 = Inl e
                               \<or> (\<exists>s8. evaluate_epoch L
                                     (val_loader
                                        \<lparr>data = val_images, targets = val_labels, ds_transform = transform\<rparr>)
                                     s7 = Inr s8 \<and>
                                    save L (state_dict L s8) ''model.pth'' s8 = Inl e)))))))))))))))"
  unfolding workflow_def Let_def
  by (auto split: sum.splits prod.splits)

section \<open>The class Net and the transform, evaluated\<close>

lemma Net_forward_shape: "forward_shape Net_forward [n, 3, 32, 32] = Inr [n, 100]"
  by (simp add: Net_forward_def conv1_def conv2_def dropout1_def dropout2_def fc1_def fc2_def)

lemma prims_transform:
  "prims transform =
     [ToTensor, Normalize [1 / 2, 1 / 2, 1 / 2] [1 / 2, 1 / 2, 1 / 2],
      RandomResizedCrop (32, 32) True, RandomVerticalFlip, RandomHorizontalFlip, ColorJitter]"
  by (simp add: transform_def)

section \<open>The small library, evaluated\<close>

lemma toy_transform_keeps:
  "toy_transform t img s = Inr (img', s') \<Longrightarrow>
     weights s' = weights s \<and> grads s' = grads s \<and> n_links s' = n_links s \<and> enabled s' = enabled s"
  by (cases t) auto

lemma toy_zero_grad_contract: "zero_grad_contract toy_torch"
  unfolding zero_grad_contract_def grads_empty_def
  by (auto simp: toy_torch_def list_all_iff dest: toy_transform_keeps)

lemma toy_no_grad_contract: "no_grad_contract toy_torch"
  unfolding no_grad_contract_def observed_def
  by (auto simp: toy_torch_def dest: toy_transform_keeps)

lemma toy_randperm_length: "randperm_length toy_torch"
  by (auto simp: randperm_length_def toy_torch_def)

lemmas run_defs =
  workflow_def train_epoch_def evaluate_epoch_def train_body_def evaluate_body_def
  iter_loader_def train_loader_def val_loader_def len_dataset_def len_loader_def
  batch_sampler_def getitem_def transform_def train_step_def evaluate_step_def no_grad_def
  model_def argmax_def accuracy_of_def

lemmas toy_defs =
  toy_torch_def failing_torch_def toy_init_def toy_ready_def toy_trained_def toy_data_def
  toy_data8_def toy_final_def

lemma toy_workflow: "workflow toy_torch toy_init = Inr toy_final"
  by (simp add: run_defs toy_defs)

lemma failing_workflow: "workflow failing_torch toy_init = Inl OutOfMemoryError"
  by (simp add: run_defs toy_defs)

lemma toy_train_step:
  "train_step toy_torch [1, 2] [0, 1] toy_ready =
     Inr ((10, [[1, 2], [2, 4]]), toy_ready\<lparr>weights := [- 9, - 8], last_epoch := 1\<rparr>)"
  by (simp add: run_defs toy_defs)

lemma toy_evaluate_step:
  "evaluate_step toy_torch [1, 2] [0, 1] toy_trained = Inr ((10, [[1, 2], [2, 4]]), toy_trained)"
  by (simp add: run_defs toy_defs)

lemma toy_evaluate_epoch:
  "evaluate_epoch toy_torch (val_loader toy_data) toy_trained =
     Inr (toy_trained\<lparr>seed := 13, stdout := [LossAccuracy 26 (3 / 4)]\<rparr>)"
  by (simp add: run_defs toy_defs)

lemma toy_train_loop:
  "train_loop toy_torch toy_data [[0, 1]] 0 toy_trained =
     Inr (toy_ready\<lparr>weights := [- 6, - 2], last_epoch := 1, seed := 7, stdout := [Loss 4]\<rparr>)"
  by (simp add: run_defs toy_defs)

lemma toy_fetch_second:
  "fetch toy_torch toy_data [2, 3]
     (toy_ready\<lparr>weights := [- 6, - 2], last_epoch := 1, seed := 7, stdout := [Loss 4]\<rparr>) =
     Inr (([3, 4], [0, 1]),
          toy_ready\<lparr>weights := [- 6, - 2], last_epoch := 1, seed := 13, stdout := [Loss 4]\<rparr>)"
  by (simp add: run_defs toy_defs)

lemma toy_fetch_all:
  "fetch toy_torch toy_data [0, 1, 2, 3] toy_ready =
     Inr (([- 1, 2, 3, 4], [0, 1, 0, 1]), toy_ready\<lparr>seed := 13\<rparr>)"
  by (simp add: run_defs toy_defs)

lemma toy_iter_val: "iter_loader toy_torch (val_loader toy_data) toy_ready = Inr ([[0, 1, 2, 3]], toy_ready)"
  by (simp add: run_defs toy_defs)

lemma toy_iter_train8:
  "iter_loader toy_torch (train_loader toy_data8) toy_ready =
     Inr ([[7, 6, 5, 4, 3, 2, 1, 0]], toy_ready\<lparr>seed := 2\<rparr>)"
  by (simp add: run_defs toy_defs)

lemma toy_iter_val8:
  "iter_loader toy_torch (val_loader toy_data8) toy_ready =
     Inr ([[0, 1, 2, 3, 4, 5, 6, 7]], toy_ready)"
  by (simp add: run_defs toy_defs)

lemma toy_evaluate_body:
  "evaluate_body toy_torch toy_data [0, 1] 0 toy_trained =
     Inr (toy_trained\<lparr>seed := 7, stdout := [LossAccuracy 4 1]\<rparr>)"
  by (simp add: run_defs toy_defs)

lemma toy_evaluate_body_traced:
  "evaluate_body (traced toy_torch) toy_data [0, 1] 0 (toy_trained, []) =
     Inr (toy_trained\<lparr>seed := 7, stdout := [LossAccuracy 4 1]\<rparr>,
          map CallTransform (prims transform) @ map CallTransform (prims transform)
          @ [CallSetGradEnabled False, CallModel, CallCriterion, CallSetGradEnabled True,
             CallPrint])"
  by (simp add: run_defs toy_defs traced_def logged_def logged0_def)

section \<open>Accesses to the stored dataset\<close>

text \<open>
  A batch of accesses under the traced library logs the transform chain once for each
  index, in the order of the indices.
\<close>

lemma fetch_traced_chain:
  "fetch L ds b s = Inr (r, s') \<Longrightarrow>
     fetch (traced L) ds b (s, cs) =
       Inr (r, (s', cs @ concat (replicate (length b) (map CallTransform (prims (ds_transform ds))))))"
proof (induction b arbitrary: s cs r)
  case Nil
  then show ?case by auto
next
  case (Cons k ks)
  from Cons.prems obtain img lab s1 imgs labs where
    g: "getitem L ds k s = Inr ((img, lab), s1)"
    and f: "fetch L ds ks s1 = Inr ((imgs, labs), s')"
    and r: "r = (img # imgs, lab # labs)"
    by (auto split: sum.splits prod.splits)
  from getitem_traced [OF g, of cs] Cons.IH [OF f] r show ?case by simp
qed

text \<open>
  A sequence of accesses to the stored dataset leaves it as it was when the transforms
  do, and is the \<open>fetch\<close> of the dataset it found.
\<close>

lemma getitems_stored_fetch:
  assumes c: "transforms_keep_dataset L"
  shows "getitems_stored L idxs st = Inr (items, st') \<Longrightarrow>
           fst st' = fst st
         \<and> map snd items = map (\<lambda>k. targets (fst st) ! k) idxs
         \<and> fetch L (fst st) idxs st = Inr ((map fst items, map snd items), st')"
proof (induction idxs arbitrary: st items)
  case Nil
  then show ?case by auto
next
  case (Cons k ks)
  from Cons.prems obtain item st1 rest where
    g: "getitem L (fst st) k st = Inr (item, st1)"
    and r: "getitems_stored L ks st1 = Inr (rest, st')"
    and i: "items = item # rest"
    by (auto simp: getitem_stored_def split: sum.splits prod.splits)
  from c have k: "\<forall>t img s img' s'. apply_transform L t img s = Inr (img', s') \<longrightarrow> fst s' = fst s"
    by (simp add: transforms_keep_dataset_def)
  from getitem_keeps [OF k g] have d: "fst st1 = fst st" .
  obtain x y where xy: "item = (x, y)" by (cases item)
  with g have "y = targets (fst st) ! k" by (simp add: getitem_Inr)
  with Cons.IH [OF r] d g i xy show ?case by simp
qed

lemma keep_store_fst: "keep_store f st = Inr (r, st') \<Longrightarrow> fst st' = fst st"
  by (auto simp: keep_store_def split: sum.splits prod.splits)

lemma stored_toy_keeps_dataset: "transforms_keep_dataset stored_toy"
  by (auto simp: transforms_keep_dataset_def stored_toy_def with_store_def dest: keep_store_fst)

lemma toy_getitems_stored:
  "getitems_stored stored_toy [0, 0] (toy_data, toy_ready) =
     Inr ([(- 1, 0), (1, 0)], (toy_data, toy_ready\<lparr>seed := 7\<rparr>))"
  by (simp add: getitem_stored_def run_defs toy_defs stored_toy_def with_store_def keep_store_def)

text \<open>
  Read-only is not a matter of course: with transforms that write to the dataset, the
  second access at index 0 finds another label than the first.
\<close>

lemma vandal_getitems_stored:
  "getitems_stored vandal_toy [0, 0] (toy_data, toy_ready) =
     Inr ([(1, 0), (1, 9)], (toy_data\<lparr>targets := [9, 9, 9, 9]\<rparr>, toy_ready))"
  by (simp add: getitem_stored_def run_defs toy_defs vandal_toy_def stored_toy_def with_store_def
      keep_store_def)

lemma vandal_changes_dataset: "\<not> transforms_keep_dataset vandal_toy"
proof
  assume "transforms_keep_dataset vandal_toy"
  from getitems_stored_fetch [OF this vandal_getitems_stored]
  have "toy_data\<lparr>targets := [9, 9, 9, 9]\<rparr> = toy_data" by simp
  then have "targets (toy_data\<lparr>targets := [9, 9, 9, 9]\<rparr>) = targets toy_data" by simp
  then show False by (simp add: toy_data_def)
qed

section \<open>Views of a contiguous 3x4 tensor\<close>

lemma offsets_rank1: "offsets [k] [Suc 0] = [0..<k]"
  by (simp add: map_idI)

lemma offsets_3_4: "offsets [3, 4] [4, Suc 0] = [0..<12]"
  by code_simp

lemma offsets_2_6: "offsets [2, 6] [6, Suc 0] = [0..<12]"
  by code_simp

lemma contiguous_3_4: "sizes a = [3, 4] \<Longrightarrow> is_contiguous a \<Longrightarrow> strides a = [4, 1]"
  by (simp add: is_contiguous_def)

lemma view_3_4_as_4_3:
  "sizes a = [3, 4] \<Longrightarrow> strides a = [4, 1] \<Longrightarrow>
     view a [4, 3] = Inr (a\<lparr>sizes := [4, 3], strides := [3, 1]\<rparr>)"
  by (simp add: view_def numel_def compute_stride_def)

lemma view_4_3_as_2_6:
  "view (a\<lparr>sizes := [4, 3], strides := [3, 1]\<rparr>) [2, 6] =
     Inr (a\<lparr>sizes := [2, 6], strides := [6, 1]\<rparr>)"
  by (simp add: view_def numel_def compute_stride_def)

section \<open>The properties of the specification\<close>

text \<open>
  C1, as the code has it. A training step that returns has made its library calls in
  this order: forward pass, loss computation, gradient computation (\<open>loss.backward()\<close>),
  parameter update (\<open>optimizer.step()\<close>), gradient reset (\<open>optimizer.zero_grad()\<close>),
  learning-rate schedule update (\<open>scheduler.step()\<close>). The gradient buffers are reset
  before the schedule is updated, not after.
\<close>

theorem train_step_call_order:
  assumes "train_step L input label s = Inr (r, s')"
  shows "train_step (traced L) input label (s, cs) =
           Inr (r, (s', cs @ [CallModel, CallCriterion, CallBackward,
                               CallOptimizerStep, CallZeroGrad, CallSchedulerStep]))"
  using assms by (rule train_step_traced)

theorem train_step_call_order_witness:
  "train_step toy_torch [1, 2] [0, 1] toy_ready =
     Inr ((10, [[1, 2], [2, 4]]), toy_ready\<lparr>weights := [- 9, - 8], last_epoch := 1\<rparr>)
   \<and> train_step (traced toy_torch) [1, 2] [0, 1] (toy_ready, []) =
       Inr ((10, [[1, 2], [2, 4]]),
            (toy_ready\<lparr>weights := [- 9, - 8], last_epoch := 1\<rparr>,
             [CallModel, CallCriterion, CallBackward,
              CallOptimizerStep, CallZeroGrad, CallSchedulerStep]))"
  using toy_train_step train_step_call_order [OF toy_train_step, of "[]"] by simp

text \<open>
  C1, as the specification states it: the schedule update before the gradient reset.
  On the small library the step logs the reset before the schedule update.
\<close>

theorem train_step_spec_order_counterexample:
  "calls_of (train_step (traced toy_torch) [1, 2] [0, 1] (toy_ready, [])) =
     [CallModel, CallCriterion, CallBackward, CallOptimizerStep, CallZeroGrad, CallSchedulerStep]
   \<and> calls_of (train_step (traced toy_torch) [1, 2] [0, 1] (toy_ready, []))
       \<noteq> spec_training_step_order"
  using train_step_traced [OF toy_train_step, of "[]"]
  by (simp add: calls_of_def spec_training_step_order_def)

text \<open>
  C2. In a training loop the gradient buffer of every parameter is empty at the start of
  each forward/backward cycle. The loop has run the batches \<open>pre\<close> and reached the
  state \<open>s\<close>; it fetches the batch \<open>b\<close> and calls \<open>train_step\<close> in the state
  \<open>s1\<close>. The buffers are empty in \<open>s\<close> and in \<open>s1\<close>, and empty again after the
  step. This needs of the library that \<open>zero_grad\<close> empties the buffers and that the
  scheduler, \<open>print\<close> and the transforms do not touch them, and of the first cycle that
  it starts from empty buffers (a model just built).
\<close>

theorem grads_empty_at_each_step:
  assumes "zero_grad_contract L"
      and "pre = [] \<longrightarrow> grads_empty L s0"
      and "train_loop L ds pre i s0 = Inr s"
      and "fetch L ds b s = Inr ((input, label), s1)"
  shows "grads_empty L s \<and> grads_empty L s1
       \<and> train_loop L ds (pre @ b # post) i s0 =
           (case train_body L ds b (i + length pre) s of
              Inl e \<Rightarrow> Inl e
            | Inr s' \<Rightarrow> train_loop L ds post (i + length pre + 1) s')
       \<and> train_body L ds b (i + length pre) s =
           (case train_step L input label s1 of
              Inl e \<Rightarrow> Inl e
            | Inr ((loss, out), s2) \<Rightarrow>
                if (i + length pre) mod 100 = 0 then print L (Loss loss) s2 else Inr s2)
       \<and> (\<forall>r s2. train_step L input label s1 = Inr (r, s2) \<longrightarrow> grads_empty L s2)"
proof -
  from train_loop_resets [OF assms(1) assms(3) assms(2)] have e: "grads_empty L s" .
  from assms(1) have k: "\<forall>t img s img' s'. apply_transform L t img s = Inr (img', s') \<longrightarrow> grad L s' = grad L s"
    unfolding zero_grad_contract_def by blast
  from fetch_keeps [OF k assms(4)] have "grad L s1 = grad L s" .
  with e have e1: "grads_empty L s1" by (simp add: grads_empty_def)
  from assms(3) have l: "train_loop L ds (pre @ b # post) i s0 =
           (case train_body L ds b (i + length pre) s of
              Inl e \<Rightarrow> Inl e
            | Inr s' \<Rightarrow> train_loop L ds post (i + length pre + 1) s')"
    by (simp add: train_loop_append)
  from assms(4) have b: "train_body L ds b (i + length pre) s =
           (case train_step L input label s1 of
              Inl e \<Rightarrow> Inl e
            | Inr ((loss, out), s2) \<Rightarrow>
                if (i + length pre) mod 100 = 0 then print L (Loss loss) s2 else Inr s2)"
    by (simp add: train_body_def)
  have n: "\<forall>r s2. train_step L input label s1 = Inr (r, s2) \<longrightarrow> grads_empty L s2"
  proof (intro allI impI)
    fix r s2
    assume "train_step L input label s1 = Inr (r, s2)"
    with assms(1) show "grads_empty L s2" by (rule train_step_resets)
  qed
  from e e1 l b n show ?thesis by (intro conjI)
qed

theorem grads_empty_at_each_step_witness:
  "zero_grad_contract toy_torch
   \<and> \<not> grads_empty toy_torch toy_trained
   \<and> train_loop toy_torch toy_data [[0, 1]] 0 toy_trained =
       Inr (toy_ready\<lparr>weights := [- 6, - 2], last_epoch := 1, seed := 7, stdout := [Loss 4]\<rparr>)
   \<and> fetch toy_torch toy_data [2, 3]
         (toy_ready\<lparr>weights := [- 6, - 2], last_epoch := 1, seed := 7, stdout := [Loss 4]\<rparr>) =
       Inr (([3, 4], [0, 1]),
            toy_ready\<lparr>weights := [- 6, - 2], last_epoch := 1, seed := 13, stdout := [Loss 4]\<rparr>)
   \<and> grads_empty toy_torch
         (toy_ready\<lparr>weights := [- 6, - 2], last_epoch := 1, seed := 7, stdout := [Loss 4]\<rparr>)
   \<and> grads_empty toy_torch
         (toy_ready\<lparr>weights := [- 6, - 2], last_epoch := 1, seed := 13, stdout := [Loss 4]\<rparr>)"
proof -
  have p: "[[0, 1]] = ([]::nat list list) \<longrightarrow> grads_empty toy_torch toy_trained" by simp
  have n: "\<not> grads_empty toy_torch toy_trained"
    by (simp add: grads_empty_def toy_defs)
  note r = grads_empty_at_each_step [OF toy_zero_grad_contract p toy_train_loop toy_fetch_second]
  from r have a: "grads_empty toy_torch
         (toy_ready\<lparr>weights := [- 6, - 2], last_epoch := 1, seed := 7, stdout := [Loss 4]\<rparr>)"
    by (rule conjunct1)
  from r have b: "grads_empty toy_torch
         (toy_ready\<lparr>weights := [- 6, - 2], last_epoch := 1, seed := 13, stdout := [Loss 4]\<rparr>)"
    by blast
  from toy_zero_grad_contract n toy_train_loop toy_fetch_second a b show ?thesis
    by (intro conjI)
qed

text \<open>
  C3, as the code has it. An evaluation step runs its forward pass and its loss
  computation with gradient tracking switched off, and puts the mode back when it
  returns: \<open>@torch.no_grad()\<close> is on \<open>evaluate_step\<close> alone. The accuracy is computed
  afterwards, by the body of the evaluation loop, from the scores the step returned and
  in the state the step left, where tracking is as it was before the step. A step, the
  body of the loop (fetch, step, accuracy, print) and the evaluation epoch over the
  validation loader leave every parameter and every gradient buffer as they were and
  record no backward-computation link. This needs of the library that a forward pass and
  a loss computation do not write parameters or buffers and record nothing while tracking
  is off.
\<close>

theorem evaluation_changes_nothing:
  assumes "no_grad_contract L"
  shows "(\<forall>r s'. evaluate_step L input label s = Inr (r, s') \<longrightarrow>
            (\<exists>out s1 loss s2.
               model_call L input (set_grad_enabled L False s) = Inr (out, s1)
             \<and> \<not> is_grad_enabled L (set_grad_enabled L False s)
             \<and> criterion L out label s1 = Inr (loss, s2)
             \<and> \<not> is_grad_enabled L s1
             \<and> r = (loss, out))
          \<and> parameters L s' = parameters L s \<and> grad L s' = grad L s \<and> links L s' = links L s
          \<and> is_grad_enabled L s' = is_grad_enabled L s)
       \<and> (\<forall>s'. evaluate_body L ds b i s = Inr s' \<longrightarrow>
            (\<exists>inp lab s1 loss out s2 pred accuracy.
               fetch L ds b s = Inr ((inp, lab), s1)
             \<and> evaluate_step L inp lab s1 = Inr ((loss, out), s2)
             \<and> is_grad_enabled L s2 = is_grad_enabled L s1
             \<and> argmax out = Inr pred
             \<and> accuracy_of pred lab = Inr accuracy
             \<and> (if i mod 100 = 0 then print L (LossAccuracy loss accuracy) s2 = Inr s'
                 else s' = s2))
          \<and> parameters L s' = parameters L s \<and> grad L s' = grad L s \<and> links L s' = links L s)
       \<and> (\<forall>s'. evaluate_epoch L (val_loader val_data) s = Inr s' \<longrightarrow>
            parameters L s' = parameters L s \<and> grad L s' = grad L s \<and> links L s' = links L s)"
proof (intro conjI allI impI)
  fix r s'
  assume t: "evaluate_step L input label s = Inr (r, s')"
  then obtain out s1 loss s2 where
    m: "model_call L input (set_grad_enabled L False s) = Inr (out, s1)"
    and cr: "criterion L out label s1 = Inr (loss, s2)"
    and r: "r = (loss, out)"
    by (rule evaluate_step_Inr)
  from assms have g0: "\<not> is_grad_enabled L (set_grad_enabled L False s)"
    by (simp add: no_grad_contract_def)
  from assms m have "is_grad_enabled L s1 = is_grad_enabled L (set_grad_enabled L False s)"
    unfolding no_grad_contract_def by blast
  with g0 have "\<not> is_grad_enabled L s1" by simp
  with m cr r g0 show "\<exists>out s1 loss s2.
               model_call L input (set_grad_enabled L False s) = Inr (out, s1)
             \<and> \<not> is_grad_enabled L (set_grad_enabled L False s)
             \<and> criterion L out label s1 = Inr (loss, s2)
             \<and> \<not> is_grad_enabled L s1
             \<and> r = (loss, out)"
    by blast
  from evaluate_step_keeps [OF assms t]
  show "parameters L s' = parameters L s" "grad L s' = grad L s" "links L s' = links L s"
    "is_grad_enabled L s' = is_grad_enabled L s"
    by (simp_all add: observed_def)
next
  fix s'
  assume b: "evaluate_body L ds b i s = Inr s'"
  then obtain inp lab s1 loss out s2 pred accuracy where
    f: "fetch L ds b s = Inr ((inp, lab), s1)"
    and t: "evaluate_step L inp lab s1 = Inr ((loss, out), s2)"
    and a: "argmax out = Inr pred" "accuracy_of pred lab = Inr accuracy"
    and p: "if i mod 100 = 0 then print L (LossAccuracy loss accuracy) s2 = Inr s' else s' = s2"
    by (rule evaluate_body_Inr)
  from evaluate_step_keeps [OF assms t] have "is_grad_enabled L s2 = is_grad_enabled L s1"
    by simp
  with f t a p show "\<exists>inp lab s1 loss out s2 pred accuracy.
               fetch L ds b s = Inr ((inp, lab), s1)
             \<and> evaluate_step L inp lab s1 = Inr ((loss, out), s2)
             \<and> is_grad_enabled L s2 = is_grad_enabled L s1
             \<and> argmax out = Inr pred
             \<and> accuracy_of pred lab = Inr accuracy
             \<and> (if i mod 100 = 0 then print L (LossAccuracy loss accuracy) s2 = Inr s'
                 else s' = s2)"
    by blast
  from evaluate_body_keeps [OF assms b]
  show "parameters L s' = parameters L s" "grad L s' = grad L s" "links L s' = links L s"
    by (simp_all add: observed_def)
next
  fix s'
  assume "evaluate_epoch L (val_loader val_data) s = Inr s'"
  from evaluate_epoch_val_keeps [OF assms this]
  show "parameters L s' = parameters L s" "grad L s' = grad L s" "links L s' = links L s"
    by (simp_all add: observed_def)
qed

theorem evaluation_changes_nothing_witness:
  "no_grad_contract toy_torch
   \<and> evaluate_step toy_torch [1, 2] [0, 1] toy_trained = Inr ((10, [[1, 2], [2, 4]]), toy_trained)
   \<and> evaluate_epoch toy_torch (val_loader toy_data) toy_trained =
       Inr (toy_trained\<lparr>seed := 13, stdout := [LossAccuracy 26 (3 / 4)]\<rparr>)
   \<and> parameters toy_torch (toy_trained\<lparr>seed := 13, stdout := [LossAccuracy 26 (3 / 4)]\<rparr>) = [1, 2]
   \<and> grad toy_torch (toy_trained\<lparr>seed := 13, stdout := [LossAccuracy 26 (3 / 4)]\<rparr>) = [Some 3, None]
   \<and> links toy_torch (toy_trained\<lparr>seed := 13, stdout := [LossAccuracy 26 (3 / 4)]\<rparr>) = 2"
proof -
  note r = evaluation_changes_nothing [OF toy_no_grad_contract,
      where input = "[1, 2]" and label = "[0, 1]" and s = toy_trained and ds = toy_data
        and b = "[]" and i = 0 and val_data = toy_data]
  from r toy_evaluate_epoch
  have "parameters toy_torch (toy_trained\<lparr>seed := 13, stdout := [LossAccuracy 26 (3 / 4)]\<rparr>) =
          parameters toy_torch toy_trained
      \<and> grad toy_torch (toy_trained\<lparr>seed := 13, stdout := [LossAccuracy 26 (3 / 4)]\<rparr>) =
          grad toy_torch toy_trained
      \<and> links toy_torch (toy_trained\<lparr>seed := 13, stdout := [LossAccuracy 26 (3 / 4)]\<rparr>) =
          links toy_torch toy_trained"
    by blast
  moreover have "parameters toy_torch toy_trained = [1, 2]" "grad toy_torch toy_trained = [Some 3, None]"
    "links toy_torch toy_trained = 2"
    by (simp_all add: toy_defs)
  ultimately show ?thesis
    using toy_no_grad_contract toy_evaluate_step toy_evaluate_epoch by simp
qed

text \<open>
  C3, as the specification states it: the accuracy too is computed with gradient
  tracking disabled. On the small library, the body of the evaluation loop over the
  batch of indices 0 and 1 fetches the batch, runs the step and computes the accuracy 1
  from the scores the step returned; the state the step left, in which the accuracy is
  computed, has tracking enabled, and the library is asked to put tracking back
  (\<open>CallSetGradEnabled True\<close>) after the loss computation, before anything else is done.
\<close>

theorem accuracy_outside_no_grad_counterexample:
  "fetch toy_torch toy_data [0, 1] toy_trained =
     Inr (([- 1, 2], [0, 1]), toy_trained\<lparr>seed := 7\<rparr>)
   \<and> evaluate_step toy_torch [- 1, 2] [0, 1] (toy_trained\<lparr>seed := 7\<rparr>) =
       Inr ((4, [[- 1, - 2], [2, 4]]), toy_trained\<lparr>seed := 7\<rparr>)
   \<and> is_grad_enabled toy_torch (toy_trained\<lparr>seed := 7\<rparr>)
   \<and> argmax [[- 1, - 2], [2, 4::int]] = Inr [0, 1]
   \<and> accuracy_of [0, 1] [0, 1] = Inr 1
   \<and> evaluate_body toy_torch toy_data [0, 1] 0 toy_trained =
       Inr (toy_trained\<lparr>seed := 7, stdout := [LossAccuracy 4 1]\<rparr>)
   \<and> calls_made (evaluate_body (traced toy_torch) toy_data [0, 1] 0 (toy_trained, [])) =
       map CallTransform (prims transform) @ map CallTransform (prims transform)
       @ [CallSetGradEnabled False, CallModel, CallCriterion, CallSetGradEnabled True, CallPrint]"
proof -
  have f: "fetch toy_torch toy_data [0, 1] toy_trained =
     Inr (([- 1, 2], [0, 1]), toy_trained\<lparr>seed := 7\<rparr>)"
    by (simp add: run_defs toy_defs)
  have e: "evaluate_step toy_torch [- 1, 2] [0, 1] (toy_trained\<lparr>seed := 7\<rparr>) =
       Inr ((4, [[- 1, - 2], [2, 4]]), toy_trained\<lparr>seed := 7\<rparr>)"
    by (simp add: run_defs toy_defs)
  have g: "is_grad_enabled toy_torch (toy_trained\<lparr>seed := 7\<rparr>)"
    by (simp add: toy_defs)
  have a: "argmax [[- 1, - 2], [2, 4::int]] = Inr [0, 1]"
    by (simp add: run_defs)
  have c: "accuracy_of [0, 1] [0, 1] = Inr 1"
    by (simp add: run_defs)
  have l: "calls_made (evaluate_body (traced toy_torch) toy_data [0, 1] 0 (toy_trained, [])) =
       map CallTransform (prims transform) @ map CallTransform (prims transform)
       @ [CallSetGradEnabled False, CallModel, CallCriterion, CallSetGradEnabled True, CallPrint]"
    using toy_evaluate_body_traced by (simp add: calls_made_def)
  from f e g a c toy_evaluate_body l show ?thesis by (intro conjI)
qed

text \<open>
  C4, as the code has it. The model the notebook builds, trains, evaluates and saves is
  \<open>models.resnet18(pretrained=False)\<close>: it is the one model any run instantiates. The
  class \<open>Net\<close>, which the notebook defines and does not instantiate, is the feed-forward
  function of the specification: two convolutions, ReLU, max pooling, dropout, two linear
  layers, taking a batch of 3x32x32 images to 100 class scores each.
\<close>

theorem net_defined_resnet18_trained:
  "model = ResNet18 False
   \<and> (workflow L s0 = Inr s' \<longrightarrow>
        filter instantiates (calls_made (workflow (traced L) (s0, []))) =
          [CallInstantiate (ResNet18 False)])
   \<and> Net_forward =
       [Conv2d 3 32 3 1, ReLU, Conv2d 32 64 3 1, ReLU, MaxPool2d 2, Dropout2d (1 / 4),
        Flatten 1, Linear 12544 1024, ReLU, Dropout2d (1 / 2), Linear 1024 100]
   \<and> forward_shape Net_forward [n, 3, 32, 32] = Inr [n, 100]"
proof (intro conjI impI)
  show "model = ResNet18 False" by (simp add: model_def)
next
  assume "workflow L s0 = Inr s'"
  then show "filter instantiates (calls_made (workflow (traced L) (s0, []))) =
          [CallInstantiate (ResNet18 False)]"
    by (simp add: workflow_instantiates model_def)
next
  show "Net_forward =
       [Conv2d 3 32 3 1, ReLU, Conv2d 32 64 3 1, ReLU, MaxPool2d 2, Dropout2d (1 / 4),
        Flatten 1, Linear 12544 1024, ReLU, Dropout2d (1 / 2), Linear 1024 100]"
    by (simp add: Net_forward_def conv1_def conv2_def dropout1_def dropout2_def fc1_def fc2_def)
next
  show "forward_shape Net_forward [n, 3, 32, 32] = Inr [n, 100]" by (rule Net_forward_shape)
qed

theorem net_defined_resnet18_trained_witness:
  "workflow toy_torch toy_init = Inr toy_final
   \<and> filter instantiates (calls_made (workflow (traced toy_torch) (toy_init, []))) =
       [CallInstantiate (ResNet18 False)]
   \<and> forward_shape Net_forward [8, 3, 32, 32] = Inr [8, 100]"
proof -
  note r = net_defined_resnet18_trained [of toy_torch toy_init toy_final 8]
  from r toy_workflow
  have "filter instantiates (calls_made (workflow (traced toy_torch) (toy_init, []))) =
       [CallInstantiate (ResNet18 False)]"
    by blast
  moreover from r have "forward_shape Net_forward [8, 3, 32, 32] = Inr [8, 100]" by blast
  ultimately show ?thesis using toy_workflow by simp
qed

text \<open>
  C4, as the specification states it: the model of the workflow is \<open>Net\<close>. It is not.
\<close>

theorem trained_model_is_Net_counterexample:
  "model \<noteq> Net
   \<and> filter instantiates (calls_made (workflow (traced toy_torch) (toy_init, []))) \<noteq>
       [CallInstantiate Net]"
  using workflow_instantiates [OF toy_workflow] by (simp add: model_def)

text \<open>
  C5. Both loaders have batch size 8. When 8 divides the number of items (as it divides
  50000 and 10000), every batch of either loader has exactly 8 indices. The training
  loader shuffles: the order of a pass is the random order it draws from the library at
  the start of that pass. The validation loader does not: its order is 0, 1, 2, ... and
  it draws nothing.
\<close>

theorem loaders_batch_by_eight:
  assumes "8 dvd len_dataset train_data" and "8 dvd len_dataset val_data"
      and "randperm_length L"
  shows "batch_size (train_loader train_data) = 8 \<and> batch_size (val_loader val_data) = 8
       \<and> shuffle (train_loader train_data) \<and> \<not> shuffle (val_loader val_data)
       \<and> (\<forall>batches s'. iter_loader L (train_loader train_data) s = Inr (batches, s') \<longrightarrow>
            list_all (\<lambda>b. length b = 8) batches
          \<and> randperm L (len_dataset train_data) s = Inr (concat batches, s'))
       \<and> (\<exists>batches. iter_loader L (val_loader val_data) s = Inr (batches, s)
          \<and> list_all (\<lambda>b. length b = 8) batches
          \<and> concat batches = [0..<len_dataset val_data])
       \<and> (8::nat) dvd 50000 \<and> (8::nat) dvd 10000"
proof -
  have t: "\<forall>batches s'. iter_loader L (train_loader train_data) s = Inr (batches, s') \<longrightarrow>
            list_all (\<lambda>b. length b = 8) batches
          \<and> randperm L (len_dataset train_data) s = Inr (concat batches, s')"
  proof (intro allI impI)
    fix batches s'
    assume "iter_loader L (train_loader train_data) s = Inr (batches, s')"
    then obtain order' where
      r: "randperm L (len_dataset train_data) s = Inr (order', s')"
      and b: "batches = batch_sampler 8 order'"
      by (auto simp: iter_loader_def train_loader_def split: sum.splits prod.splits)
    from assms(3) r have "length order' = len_dataset train_data"
      unfolding randperm_length_def by blast
    with assms(1) have "list_all (\<lambda>b. length b = 8) (batch_sampler 8 order')"
      by (simp add: batch_sampler_full)
    with r b show "list_all (\<lambda>b. length b = 8) batches
          \<and> randperm L (len_dataset train_data) s = Inr (concat batches, s')"
      by (simp add: batch_sampler_concat)
  qed
  have v: "iter_loader L (val_loader val_data) s =
             Inr (batch_sampler 8 [0..<len_dataset val_data], s)"
    by (simp add: iter_loader_def val_loader_def)
  from assms(2) have "list_all (\<lambda>b. length b = 8) (batch_sampler 8 [0..<len_dataset val_data])"
    by (simp add: batch_sampler_full)
  with v have "\<exists>batches. iter_loader L (val_loader val_data) s = Inr (batches, s)
          \<and> list_all (\<lambda>b. length b = 8) batches
          \<and> concat batches = [0..<len_dataset val_data]"
    by (simp add: batch_sampler_concat)
  with t show ?thesis by (simp add: train_loader_def val_loader_def)
qed

theorem loaders_batch_by_eight_witness:
  "8 dvd len_dataset toy_data8 \<and> randperm_length toy_torch
   \<and> iter_loader toy_torch (train_loader toy_data8) toy_ready =
       Inr ([[7, 6, 5, 4, 3, 2, 1, 0]], toy_ready\<lparr>seed := 2\<rparr>)
   \<and> list_all (\<lambda>b. length b = 8) [[7, 6, 5, 4, 3, 2, 1, 0::nat]]
   \<and> randperm toy_torch (len_dataset toy_data8) toy_ready =
       Inr (concat [[7, 6, 5, 4, 3, 2, 1, 0]], toy_ready\<lparr>seed := 2\<rparr>)
   \<and> shuffle (train_loader toy_data8) \<and> \<not> shuffle (val_loader toy_data8)
   \<and> iter_loader toy_torch (val_loader toy_data8) toy_ready =
       Inr ([[0, 1, 2, 3, 4, 5, 6, 7]], toy_ready)"
proof -
  have "len_dataset toy_data8 = 8" by (simp add: len_dataset_def toy_data8_def)
  then have d: "8 dvd len_dataset toy_data8" by simp
  note r = loaders_batch_by_eight [OF d d toy_randperm_length, of toy_ready]
  from r toy_iter_train8
  have "list_all (\<lambda>b. length b = 8) [[7, 6, 5, 4, 3, 2, 1, 0::nat]]
      \<and> randperm toy_torch (len_dataset toy_data8) toy_ready =
          Inr (concat [[7, 6, 5, 4, 3, 2, 1, 0]], toy_ready\<lparr>seed := 2\<rparr>)"
    by blast
  moreover from r have "shuffle (train_loader toy_data8) \<and> \<not> shuffle (val_loader toy_data8)"
    by blast
  ultimately show ?thesis using d toy_randperm_length toy_iter_train8 toy_iter_val8 by blast
qed

text \<open>
  C6. A run of the notebook that returns has downloaded the two datasets, built the
  model, the loss, the optimizer and the schedule, run the training epoch over the
  training loader and then the evaluation epoch over the validation loader, and as its
  last call saved to \<open>model.pth\<close> the state dict of the model as the evaluation epoch
  left it, which is the model the training epoch trained. Of the calls of the run,
  those that write a file are the two dataset downloads and that one \<open>torch.save\<close>; the
  calls of the two epochs write none.
\<close>

theorem workflow_writes_one_file:
  fixes L :: "('s, 'i, 'a::linorder, 'p) torch"
  assumes "workflow L s0 = Inr s'"
  shows "\<exists>train_images train_labels s1 val_images val_labels s2 s3 s4 s5 s6 s7 s8 c6 e1 e2.
           CIFAR100 L ''cifar100'' True True s0 = Inr ((train_images, train_labels), s1)
         \<and> CIFAR100 L ''cifar100'' False True s1 = Inr ((val_images, val_labels), s2)
         \<and> instantiate L model s2 = Inr s3
         \<and> CrossEntropyLoss L s3 = Inr s4
         \<and> SGD L (1 / 1000) (9 / 10) s4 = Inr s5
         \<and> CosineAnnealingLR L
              (len_loader (train_loader
                 \<lparr>data = train_images, targets = train_labels, ds_transform = transform\<rparr>))
              s5 = Inr s6
         \<and> train_epoch L
              (train_loader \<lparr>data = train_images, targets = train_labels, ds_transform = transform\<rparr>)
              s6 = Inr s7
         \<and> evaluate_epoch L
              (val_loader \<lparr>data = val_images, targets = val_labels, ds_transform = transform\<rparr>)
              s7 = Inr s8
         \<and> save L (state_dict L s8) ''model.pth'' s8 = Inr s'
         \<and> c6 = [CallCIFAR100 ''cifar100'' True True, CallCIFAR100 ''cifar100'' False True,
                  CallInstantiate model, CallCrossEntropyLoss, CallSGD (1 / 1000) (9 / 10),
                  CallCosineAnnealingLR
                    (len_loader (train_loader
                       \<lparr>data = train_images, targets = train_labels, ds_transform = transform\<rparr>))]
         \<and> train_epoch (traced L)
              (train_loader \<lparr>data = train_images, targets = train_labels, ds_transform = transform\<rparr>)
              (s6, c6) = Inr (s7, c6 @ e1)
         \<and> evaluate_epoch (traced L)
              (val_loader \<lparr>data = val_images, targets = val_labels, ds_transform = transform\<rparr>)
              (s7, c6 @ e1) = Inr (s8, c6 @ e1 @ e2)
         \<and> workflow (traced L) (s0, []) =
             Inr (s', c6 @ e1 @ e2 @ [CallSave (state_dict L s8) ''model.pth''])
         \<and> filter writes_file (c6 @ e1 @ e2 @ [CallSave (state_dict L s8) ''model.pth'']) =
             [CallCIFAR100 ''cifar100'' True True, CallCIFAR100 ''cifar100'' False True,
              CallSave (state_dict L s8) ''model.pth'']
         \<and> filter writes_file (e1 @ e2) = []"
proof -
  from assms obtain train_images train_labels s1 val_images val_labels s2 s3 s4 s5 s6 s7 s8 where
    h: "CIFAR100 L ''cifar100'' True True s0 = Inr ((train_images, train_labels), s1)"
    "CIFAR100 L ''cifar100'' False True s1 = Inr ((val_images, val_labels), s2)"
    "instantiate L model s2 = Inr s3"
    "CrossEntropyLoss L s3 = Inr s4"
    "SGD L (1 / 1000) (9 / 10) s4 = Inr s5"
    "CosineAnnealingLR L
       (len_loader (train_loader \<lparr>data = train_images, targets = train_labels, ds_transform = transform\<rparr>))
       s5 = Inr s6"
    and t: "train_epoch L
       (train_loader \<lparr>data = train_images, targets = train_labels, ds_transform = transform\<rparr>)
       s6 = Inr s7"
    and e: "evaluate_epoch L
       (val_loader \<lparr>data = val_images, targets = val_labels, ds_transform = transform\<rparr>)
       s7 = Inr s8"
    and sv: "save L (state_dict L s8) ''model.pth'' s8 = Inr s'"
    by (rule workflow_Inr)
  let ?train = "\<lparr>data = train_images, targets = train_labels, ds_transform = transform\<rparr>"
  let ?val = "\<lparr>data = val_images, targets = val_labels, ds_transform = transform\<rparr>"
  define c6 :: "'p call list" where "c6 = [CallCIFAR100 ''cifar100'' True True, CallCIFAR100 ''cifar100'' False True,
              CallInstantiate model, CallCrossEntropyLoss, CallSGD (1 / 1000) (9 / 10),
              CallCosineAnnealingLR (len_loader (train_loader ?train))]"
  from train_epoch_traced [OF t, of c6] obtain e1 where
    t': "train_epoch (traced L) (train_loader ?train) (s6, c6) = Inr (s7, c6 @ e1)"
    and q1: "list_all epoch_call e1"
    by blast
  from evaluate_epoch_traced [OF e, of "c6 @ e1"] obtain e2 where
    e': "evaluate_epoch (traced L) (val_loader ?val) (s7, c6 @ e1) = Inr (s8, (c6 @ e1) @ e2)"
    and q2: "list_all epoch_call e2"
    by blast
  from e' have e'': "evaluate_epoch (traced L) (val_loader ?val) (s7, c6 @ e1) = Inr (s8, c6 @ e1 @ e2)"
    by simp
  from h t' e' sv have w: "workflow (traced L) (s0, []) =
      Inr (s', c6 @ e1 @ e2 @ [CallSave (state_dict L s8) ''model.pth''])"
    unfolding c6_def by (simp add: workflow_def traced_fields logged_Inr logged0_Inr)
  from q1 q2 have q: "filter writes_file (e1 @ e2) = []"
    by (simp add: epoch_call_no_write)
  then have f: "filter writes_file (c6 @ e1 @ e2 @ [CallSave (state_dict L s8) ''model.pth'']) =
      [CallCIFAR100 ''cifar100'' True True, CallCIFAR100 ''cifar100'' False True,
       CallSave (state_dict L s8) ''model.pth'']"
    by (simp add: c6_def)
  from h t e sv c6_def t' e'' w f q show ?thesis
    by (intro exI conjI)
qed

theorem workflow_writes_one_file_witness:
  "workflow toy_torch toy_init = Inr toy_final
   \<and> (\<exists>cs s7 s8.
         workflow (traced toy_torch) (toy_init, []) = Inr (toy_final, cs)
       \<and> filter writes_file cs =
           [CallCIFAR100 ''cifar100'' True True, CallCIFAR100 ''cifar100'' False True,
            CallSave (state_dict toy_torch s8) ''model.pth'']
       \<and> evaluate_epoch toy_torch
            (val_loader \<lparr>data = [5, 6, 7, 8], targets = [0, 1, 0, 1], ds_transform = transform\<rparr>)
            s7 = Inr s8
       \<and> save toy_torch (state_dict toy_torch s8) ''model.pth'' s8 = Inr toy_final)
   \<and> disk toy_final =
       [(''cifar100'', []), (''cifar100'', []),
        (''model.pth'', [(''fc.weight'', - 13), (''fc.bias'', - 12)])]"
proof -
  from workflow_writes_one_file [OF toy_workflow]
  obtain train_images train_labels s1 val_images val_labels s2 s7 s8 cs where
    c: "CIFAR100 toy_torch ''cifar100'' True True toy_init = Inr ((train_images, train_labels), s1)"
    and v: "CIFAR100 toy_torch ''cifar100'' False True s1 = Inr ((val_images, val_labels), s2)"
    and e: "evaluate_epoch toy_torch
              (val_loader \<lparr>data = val_images, targets = val_labels, ds_transform = transform\<rparr>)
              s7 = Inr s8"
    and sv: "save toy_torch (state_dict toy_torch s8) ''model.pth'' s8 = Inr toy_final"
    and w: "workflow (traced toy_torch) (toy_init, []) = Inr (toy_final, cs)"
    and f: "filter writes_file cs =
             [CallCIFAR100 ''cifar100'' True True, CallCIFAR100 ''cifar100'' False True,
              CallSave (state_dict toy_torch s8) ''model.pth'']"
    by blast
  from v have "val_images = [5, 6, 7, 8]" "val_labels = [0, 1, 0, 1]"
    by (auto simp: toy_torch_def)
  with e have "evaluate_epoch toy_torch
            (val_loader \<lparr>data = [5, 6, 7, 8], targets = [0, 1, 0, 1], ds_transform = transform\<rparr>)
            s7 = Inr s8"
    by simp
  with w f sv have "\<exists>cs s7 s8.
         workflow (traced toy_torch) (toy_init, []) = Inr (toy_final, cs)
       \<and> filter writes_file cs =
           [CallCIFAR100 ''cifar100'' True True, CallCIFAR100 ''cifar100'' False True,
            CallSave (state_dict toy_torch s8) ''model.pth'']
       \<and> evaluate_epoch toy_torch
            (val_loader \<lparr>data = [5, 6, 7, 8], targets = [0, 1, 0, 1], ds_transform = transform\<rparr>)
            s7 = Inr s8
       \<and> save toy_torch (state_dict toy_torch s8) ''model.pth'' s8 = Inr toy_final"
    by blast
  with toy_workflow show ?thesis by (simp add: toy_final_def)
qed

text \<open>
  C7. No exception is caught, retried or translated. \<open>train_step\<close>, the training
  loop's body, \<open>train_epoch\<close>, \<open>evaluate_step\<close>, the evaluation loop's body,
  \<open>evaluate_epoch\<close> and the whole notebook raise \<open>e\<close> exactly when the first call
  in them that raises, raises \<open>e\<close>.
\<close>

theorem exceptions_propagate:
  "(train_step L input label s = Inl e \<longleftrightarrow>
      model_call L input s = Inl e
    \<or> (\<exists>out s1. model_call L input s = Inr (out, s1) \<and>
         (criterion L out label s1 = Inl e
        \<or> (\<exists>loss s2. criterion L out label s1 = Inr (loss, s2) \<and>
             (backward L loss s2 = Inl e
            \<or> (\<exists>s3. backward L loss s2 = Inr s3 \<and>
                 (optimizer_step L s3 = Inl e
                \<or> (\<exists>s4. optimizer_step L s3 = Inr s4 \<and>
                     (optimizer_zero_grad L s4 = Inl e
                    \<or> (\<exists>s5. optimizer_zero_grad L s4 = Inr s5 \<and>
                         scheduler_step L s5 = Inl e))))))))))
 \<and> (train_body L ds b i s = Inl e \<longleftrightarrow>
      fetch L ds b s = Inl e
    \<or> (\<exists>input label s1. fetch L ds b s = Inr ((input, label), s1) \<and>
         (train_step L input label s1 = Inl e
        \<or> (\<exists>loss out s2. train_step L input label s1 = Inr ((loss, out), s2) \<and>
             i mod 100 = 0 \<and> print L (Loss loss) s2 = Inl e))))
 \<and> (train_epoch L dl s = Inl e \<longleftrightarrow>
      iter_loader L dl s = Inl e
    \<or> (\<exists>pre b post s1 s2. iter_loader L dl s = Inr (pre @ b # post, s1) \<and>
         train_loop L (dataset dl) pre 0 s1 = Inr s2 \<and>
         train_body L (dataset dl) b (length pre) s2 = Inl e))
 \<and> (evaluate_step L input label s = Inl e \<longleftrightarrow>
      model_call L input (set_grad_enabled L False s) = Inl e
    \<or> (\<exists>out s1. model_call L input (set_grad_enabled L False s) = Inr (out, s1) \<and>
         criterion L out label s1 = Inl e))
 \<and> (evaluate_body L ds b i s = Inl e \<longleftrightarrow>
      fetch L ds b s = Inl e
    \<or> (\<exists>input label s1. fetch L ds b s = Inr ((input, label), s1) \<and>
         (evaluate_step L input label s1 = Inl e
        \<or> (\<exists>loss out s2. evaluate_step L input label s1 = Inr ((loss, out), s2) \<and>
             (argmax out = Inl e
            \<or> (\<exists>pred. argmax out = Inr pred \<and>
                 (accuracy_of pred label = Inl e
                \<or> (\<exists>accuracy. accuracy_of pred label = Inr accuracy \<and>
                     i mod 100 = 0 \<and> print L (LossAccuracy loss accuracy) s2 = Inl e))))))))
 \<and> (evaluate_epoch L dl s = Inl e \<longleftrightarrow>
      iter_loader L dl s = Inl e
    \<or> (\<exists>pre b post s1 s2. iter_loader L dl s = Inr (pre @ b # post, s1) \<and>
         evaluate_loop L (dataset dl) pre 0 s1 = Inr s2 \<and>
         evaluate_body L (dataset dl) b (length pre) s2 = Inl e))
 \<and> (workflow L s = Inl e \<longleftrightarrow>
      CIFAR100 L ''cifar100'' True True s = Inl e
    \<or> (\<exists>train_images train_labels s1.
         CIFAR100 L ''cifar100'' True True s = Inr ((train_images, train_labels), s1) \<and>
         (CIFAR100 L ''cifar100'' False True s1 = Inl e
        \<or> (\<exists>val_images val_labels s2.
             CIFAR100 L ''cifar100'' False True s1 = Inr ((val_images, val_labels), s2) \<and>
             (instantiate L model s2 = Inl e
            \<or> (\<exists>s3. instantiate L model s2 = Inr s3 \<and>
                 (CrossEntropyLoss L s3 = Inl e
                \<or> (\<exists>s4. CrossEntropyLoss L s3 = Inr s4 \<and>
                     (SGD L (1 / 1000) (9 / 10) s4 = Inl e
                    \<or> (\<exists>s5. SGD L (1 / 1000) (9 / 10) s4 = Inr s5 \<and>
                         (CosineAnnealingLR L
                            (len_loader (train_loader
                               \<lparr>data = train_images, targets = train_labels, ds_transform = transform\<rparr>))
                            s5 = Inl e
                        \<or> (\<exists>s6. CosineAnnealingLR L
                              (len_loader (train_loader
                                 \<lparr>data = train_images, targets = train_labels, ds_transform = transform\<rparr>))
                              s5 = Inr s6 \<and>
                             (train_epoch L
                                (train_loader
                                   \<lparr>data = train_images, targets = train_labels, ds_transform = transform\<rparr>)
                                s6 = Inl e
                            \<or> (\<exists>s7. train_epoch L
                                  (train_loader
                                     \<lparr>data = train_images, targets = train_labels, ds_transform = transform\<rparr>)
                                  s6 = Inr s7 \<and>
                                 (evaluate_epoch L
                                    (val_loader
                                       \<lparr>data = val_images, targets = val_labels, ds_transform = transform\<rparr>)
                                    s7 = Inl e
                                \<or> (\<exists>s8. evaluate_epoch L
                                      (val_loader
                                         \<lparr>data = val_images, targets = val_labels, ds_transform = transform\<rparr>)
                                      s7 = Inr s8 \<and>
                                     save L (state_dict L s8) ''model.pth'' s8 = Inl e))))))))))))))))"
  by (intro conjI)
     (rule train_step_Inl train_body_Inl train_epoch_Inl_body evaluate_step_Inl
        evaluate_body_Inl evaluate_epoch_Inl_body workflow_Inl)+

theorem exceptions_propagate_witness:
  "model_call failing_torch [1, 2] toy_ready = Inr ([[1, 2], [2, 4]], toy_ready\<lparr>n_links := 1\<rparr>)
   \<and> criterion failing_torch [[1, 2], [2, 4]] [0, 1] (toy_ready\<lparr>n_links := 1\<rparr>) =
       Inr (10, toy_ready\<lparr>n_links := 2\<rparr>)
   \<and> backward failing_torch 10 (toy_ready\<lparr>n_links := 2\<rparr>) = Inl OutOfMemoryError
   \<and> train_step failing_torch [1, 2] [0, 1] toy_ready = Inl OutOfMemoryError
   \<and> workflow failing_torch toy_init = Inl OutOfMemoryError"
proof -
  have m: "model_call failing_torch [1, 2] toy_ready =
             Inr ([[1, 2], [2, 4]], toy_ready\<lparr>n_links := 1\<rparr>)"
    by (simp add: toy_defs)
  have c: "criterion failing_torch [[1, 2], [2, 4]] [0, 1] (toy_ready\<lparr>n_links := 1\<rparr>) =
             Inr (10, toy_ready\<lparr>n_links := 2\<rparr>)"
    by (simp add: toy_defs)
  have b: "backward failing_torch 10 (toy_ready\<lparr>n_links := 2\<rparr>) = Inl OutOfMemoryError"
    by (simp add: toy_defs)
  note r = exceptions_propagate [where L = failing_torch and input = "[1, 2]" and label = "[0, 1]"
      and s = toy_ready and e = OutOfMemoryError, THEN conjunct1]
  from m c b have "train_step failing_torch [1, 2] [0, 1] toy_ready = Inl OutOfMemoryError"
    unfolding r by blast
  with m c b failing_workflow show ?thesis by (intro conjI)
qed

text \<open>
  C8. With the dataset held in the state, a sequence of accesses by index that returns
  leaves the dataset as it found it, whenever the transforms of the library do: an
  access itself writes nothing. Every access returns the stored label of its index, so
  two accesses at one index return the same label. Nothing is cached: under the traced
  library the accesses log the transform chain of the dataset once for every index of
  the sequence, also for an index that has been accessed before. The chain of the
  notebook holds the random crop, the two random flips and the colour jitter, so two
  accesses at one index need not return equal images: on the small library the first
  access at index 0 gives -1 and the second gives 1, both with the label 0.
\<close>

theorem dataset_read_only_and_rederived:
  assumes "transforms_keep_dataset L"
      and "getitems_stored L idxs st = Inr (items, st')"
  shows "fst st' = fst st
       \<and> map snd items = map (\<lambda>k. targets (fst st) ! k) idxs
       \<and> fetch (traced L) (fst st) idxs (st, cs) =
           Inr ((map fst items, map snd items),
                (st', cs @ concat (replicate (length idxs)
                                     (map CallTransform (prims (ds_transform (fst st)))))))
       \<and> prims transform =
           [ToTensor, Normalize [1 / 2, 1 / 2, 1 / 2] [1 / 2, 1 / 2, 1 / 2],
            RandomResizedCrop (32, 32) True, RandomVerticalFlip, RandomHorizontalFlip, ColorJitter]
       \<and> getitems_stored stored_toy [0, 0] (toy_data, toy_ready) =
           Inr ([(- 1, 0), (1, 0)], (toy_data, toy_ready\<lparr>seed := 7\<rparr>))"
proof -
  from getitems_stored_fetch [OF assms]
  have d: "fst st' = fst st"
    and l: "map snd items = map (\<lambda>k. targets (fst st) ! k) idxs"
    and f: "fetch L (fst st) idxs st = Inr ((map fst items, map snd items), st')"
    by simp_all
  note t = fetch_traced_chain [OF f, of cs]
  from d l t prims_transform toy_getitems_stored show ?thesis by (intro conjI)
qed

theorem dataset_read_only_and_rederived_witness:
  "transforms_keep_dataset stored_toy
   \<and> getitems_stored stored_toy [0, 0] (toy_data, toy_ready) =
       Inr ([(- 1::int, 0::nat), (1, 0)], (toy_data, toy_ready\<lparr>seed := 7\<rparr>))
   \<and> fst (toy_data, toy_ready\<lparr>seed := 7\<rparr>) = fst (toy_data, toy_ready)
   \<and> map snd [(- 1::int, 0::nat), (1, 0)] = map (\<lambda>k. targets (fst (toy_data, toy_ready)) ! k) [0, 0]
   \<and> fetch (traced stored_toy) (fst (toy_data, toy_ready)) [0, 0] ((toy_data, toy_ready), []) =
       Inr ((map fst [(- 1::int, 0::nat), (1, 0)], map snd [(- 1::int, 0::nat), (1, 0)]),
            ((toy_data, toy_ready\<lparr>seed := 7\<rparr>),
             [] @ concat (replicate (length [0, 0::nat])
                            (map CallTransform (prims (ds_transform (fst (toy_data, toy_ready))))))))"
proof -
  note r = dataset_read_only_and_rederived [OF stored_toy_keeps_dataset toy_getitems_stored, of "[]"]
  from r stored_toy_keeps_dataset toy_getitems_stored show ?thesis by blast
qed

text \<open>
  C9. For every batch \<open>b\<close> a loader yields and the labels fetched for it:
  \<open>len(label)\<close> is the size of the batch and is not zero, so the division in
  \<open>evaluate_epoch\<close> does not raise; the number of predictions equal to their label is
  at most \<open>len(label)\<close>; and the accuracy, when it is computed, lies between 0 and 1.
  The labels are those the loop's body passes to the accuracy computation.
\<close>

theorem accuracy_well_defined:
  assumes "iter_loader L dl s = Inr (batches, s')"
      and "b \<in> set batches"
      and "fetch L (dataset dl) b s1 = Inr ((input, label), s2)"
  shows "length label = length b \<and> 0 < length label
       \<and> accuracy_of pred label \<noteq> Inl ZeroDivisionError
       \<and> length (filter (\<lambda>(p, l). p = l) (zip pred label)) \<le> length label
       \<and> (\<forall>a. accuracy_of pred label = Inr a \<longrightarrow> 0 \<le> a \<and> a \<le> 1)
       \<and> evaluate_body L (dataset dl) b i s1 =
           (case evaluate_step L input label s2 of
              Inl e \<Rightarrow> Inl e
            | Inr ((loss, out), s3) \<Rightarrow>
           (case argmax out of
              Inl e \<Rightarrow> Inl e
            | Inr pred \<Rightarrow>
           (case accuracy_of pred label of
              Inl e \<Rightarrow> Inl e
            | Inr accuracy \<Rightarrow>
                if i mod 100 = 0 then print L (LossAccuracy loss accuracy) s3 else Inr s3)))"
proof -
  from iter_loader_batches [OF assms(1)]
  obtain order' where "batches = batch_sampler (batch_size dl) order'" ..
  with assms(2) have "b \<noteq> []" by (auto dest: batch_sampler_nonempty)
  moreover from assms(3) have l: "length label = length b" by (simp add: fetch_lengths)
  ultimately have ne: "label \<noteq> []" by auto
  then have z: "accuracy_of pred label \<noteq> Inl ZeroDivisionError"
    by (rule accuracy_of_no_zero_division)
  have c: "length (filter (\<lambda>(p, l). p = l) (zip pred label)) \<le> length label"
    by (rule correct_count_le)
  have r: "\<forall>a. accuracy_of pred label = Inr a \<longrightarrow> 0 \<le> a \<and> a \<le> 1"
    using accuracy_of_range by blast
  from assms(3) have e: "evaluate_body L (dataset dl) b i s1 =
           (case evaluate_step L input label s2 of
              Inl e \<Rightarrow> Inl e
            | Inr ((loss, out), s3) \<Rightarrow>
           (case argmax out of
              Inl e \<Rightarrow> Inl e
            | Inr pred \<Rightarrow>
           (case accuracy_of pred label of
              Inl e \<Rightarrow> Inl e
            | Inr accuracy \<Rightarrow>
                if i mod 100 = 0 then print L (LossAccuracy loss accuracy) s3 else Inr s3)))"
    by (simp add: evaluate_body_def)
  from ne have p: "0 < length label" by simp
  from l p z c r e show ?thesis by (intro conjI)
qed

theorem accuracy_well_defined_witness:
  "iter_loader toy_torch (val_loader toy_data) toy_ready = Inr ([[0, 1, 2, 3]], toy_ready)
   \<and> [0, 1, 2, 3] \<in> set [[0, 1, 2, 3::nat]]
   \<and> fetch toy_torch (dataset (val_loader toy_data)) [0, 1, 2, 3] toy_ready =
       Inr (([- 1, 2, 3, 4], [0, 1, 0, 1]), toy_ready\<lparr>seed := 13\<rparr>)
   \<and> accuracy_of [0, 0, 0, 0] [0, 1, 0, 1] = Inr (1 / 2)
   \<and> accuracy_of [0, 0, 0, 0] [0, 1, 0, 1] \<noteq> Inl ZeroDivisionError
   \<and> (0::real) \<le> 1 / 2 \<and> (1 / 2::real) \<le> 1"
proof -
  have m: "[0, 1, 2, 3] \<in> set [[0, 1, 2, 3::nat]]" by simp
  have f: "fetch toy_torch (dataset (val_loader toy_data)) [0, 1, 2, 3] toy_ready =
       Inr (([- 1, 2, 3, 4], [0, 1, 0, 1]), toy_ready\<lparr>seed := 13\<rparr>)"
    using toy_fetch_all by (simp add: val_loader_def)
  have a: "accuracy_of [0, 0, 0, 0] [0, 1, 0, 1] = Inr (1 / 2)"
    by (simp add: accuracy_of_def)
  note r = accuracy_well_defined [OF toy_iter_val m f, of "[0, 0, 0, 0]" 0]
  from r have z: "accuracy_of [0, 0, 0, 0] [0, 1, 0, 1] \<noteq> Inl ZeroDivisionError" by blast
  from r a have "(0::real) \<le> 1 / 2 \<and> (1 / 2::real) \<le> 1" by blast
  with toy_iter_val m f a z show ?thesis by (intro conjI) simp_all
qed

text \<open>
  C10, as the library has it. For every contiguous 3x4 tensor \<open>a\<close>, as
  \<open>torch.ones((3, 4))\<close> is, the cell returns: \<open>a.view(4, 3).view(2, 6).flatten()\<close> is
  \<open>a.flatten()\<close>, a rank-1 tensor of 12 elements, the elements of \<open>a\<close> in row-major
  order.
\<close>

theorem view_flatten_identity:
  assumes "sizes a = [3, 4]" and "is_contiguous a"
  shows "view_flatten_cell a = Inr (flatten a)
       \<and> ndim (flatten a) = 1 \<and> numel (flatten a) = 12
       \<and> length (elements (flatten a)) = 12
       \<and> elements (flatten a) = elements a"
proof -
  from assms have st: "strides a = [4, 1]" by (rule contiguous_3_4)
  have "flatten (a\<lparr>sizes := [2, 6], strides := [6, 1]\<rparr>) = flatten a"
    using assms(1) st
    by (simp add: flatten_def elements_def numel_def offsets_3_4 offsets_2_6 del: offsets.simps)
  with view_3_4_as_4_3 [OF assms(1) st] view_4_3_as_2_6 [of a]
  have c: "view_flatten_cell a = Inr (flatten a)"
    by (simp add: view_flatten_cell_def)
  have n: "numel (flatten a) = 12" using assms(1) by (simp add: flatten_def numel_def)
  have l: "length (elements a) = 12"
    using assms(1) st by (simp add: elements_def offsets_3_4 del: offsets.simps)
  have "elements (flatten a) = map (\<lambda>k. elements a ! k) [0..<length (elements a)]"
    using assms(1) l
    by (simp add: flatten_def elements_def [of "\<lparr>storage = _, sizes = _, strides = _\<rparr>"]
        numel_def offsets_rank1 del: offsets.simps)
  then have e: "elements (flatten a) = elements a" by (simp add: map_nth)
  with l have "length (elements (flatten a)) = 12" by simp
  with c n e show ?thesis by (simp add: ndim_def flatten_def)
qed

theorem view_flatten_identity_witness:
  "sizes (ones 3 4) = [3, 4] \<and> is_contiguous (ones 3 4)
   \<and> view_flatten_cell (ones 3 4) = Inr (flatten (ones 3 4))
   \<and> elements (flatten (ones 3 4)) = elements (ones 3 4)
   \<and> numel (flatten (ones 3 4)) = 12"
proof -
  have s: "sizes (ones 3 4) = [3, 4]" by (simp add: ones_def)
  have c: "is_contiguous (ones 3 4)" by (simp add: ones_def is_contiguous_def)
  from view_flatten_identity [OF s c] s c show ?thesis by simp
qed

text \<open>
  C10, as the specification states it: for every 3x4 tensor. The transpose of the 4x3
  tensor of ones is a 3x4 tensor, and \<open>view(4, 3)\<close> raises on it: no strides for the
  shape 4x3 address its elements in their order.
\<close>

theorem view_of_transposed_counterexample:
  "sizes (transpose_t (ones 4 3)) = [3, 4]
   \<and> view (transpose_t (ones 4 3)) [4, 3] =
       Inl (RuntimeError ''view size is not compatible with input tensor size and stride'')
   \<and> view_flatten_cell (transpose_t (ones 4 3)) \<noteq> Inr (flatten (transpose_t (ones 4 3)))"
  by (simp add: view_flatten_cell_def view_def transpose_t_def ones_def numel_def compute_stride_def)

end
